theory Spec2Isabelle
  imports Complex_Main
begin

section \<open>Performer (FAVOR+) attention: a shallow embedding\<close>

text \<open>
  The development follows \<^verbatim>\<open>modeling_performer_attention.py\<close> (PyTorch) and
  \<^verbatim>\<open>modeling_tf_performer_attention.py\<close> (TensorFlow). Tensor entries are exact
  reals: rounding of floating-point arithmetic is not part of the model, so an
  equality proved here is the exact-arithmetic identity that the floating-point
  computation approximates.
\<close>

subsection \<open>The normalisation stabiliser\<close>

text \<open>
  \<^verbatim>\<open>d += 2 * self.normalization_stabilizer * (torch.abs(d) <= self.normalization_stabilizer)\<close>
  for one entry \<open>d\<close> of the normaliser; the comparison yields the number 1 or 0.
  The TensorFlow file has the same expression.
\<close>

definition stabilize :: "real \<Rightarrow> real \<Rightarrow> real" where
  "stabilize s d = d + 2 * s * (if \<bar>d\<bar> \<le> s then 1 else 0)"

subsection \<open>Errors and sequencing\<close>

text \<open>Every exception the modelled code raises is a value; \<open>Inl\<close> carries it.\<close>

datatype error =
    ValueError string
  | AttributeError string
  | KeyError string
  | AssertionError
  | ZeroDivisionError
  | IndexError
  | TypeError string
  | RuntimeError string

definition bnd :: "error + 'a \<Rightarrow> ('a \<Rightarrow> error + 'b) \<Rightarrow> error + 'b" where
  "bnd m f = (case m of Inl e \<Rightarrow> Inl e | Inr x \<Rightarrow> f x)"

subsection \<open>Tensors\<close>

text \<open>
  A tensor is a nested list, outermost dimension first. \<open>tab n f\<close> builds the list
  of \<open>f 0, \<dots>, f (n - 1)\<close>. A nested list does not record the inner
  dimensions of a tensor with an empty outer dimension: \<open>ncols\<close> is 0 then.
\<close>

type_synonym vec = "real list"
type_synonym mat = "real list list"
type_synonym tensor3 = "real list list list"
type_synonym tensor4 = "real list list list list"

definition tab :: "nat \<Rightarrow> (nat \<Rightarrow> 'a) \<Rightarrow> 'a list" where
  "tab n f = map f [0..<n]"

fun ncols :: "'a list list \<Rightarrow> nat" where
  "ncols [] = 0"
| "ncols (r # _) = length r"

definition is_mat :: "nat \<Rightarrow> nat \<Rightarrow> 'a list list \<Rightarrow> bool" where
  "is_mat n m A = (length A = n \<and> list_all (\<lambda>r. length r = m) A)"

text \<open>\<^verbatim>\<open>A @ B\<close> for two matrices; a shape mismatch raises.\<close>

definition matmul :: "mat \<Rightarrow> mat \<Rightarrow> error + mat" where
  "matmul A B =
     (if is_mat (length A) (length B) A \<and> is_mat (length B) (ncols B) B
      then Inr (tab (length A) (\<lambda>i. tab (ncols B) (\<lambda>j. \<Sum>k<length B. A ! i ! k * B ! k ! j)))
      else Inl (RuntimeError ''matmul: shapes cannot be multiplied''))"

text \<open>\<^verbatim>\<open>x.t()\<close> of a matrix.\<close>

definition t_mat :: "mat \<Rightarrow> mat" where
  "t_mat A = tab (ncols A) (\<lambda>j. tab (length A) (\<lambda>i. A ! i ! j))"

text \<open>\<^verbatim>\<open>torch.diag(v)\<close> of a vector.\<close>

definition diag :: "vec \<Rightarrow> mat" where
  "diag v = tab (length v) (\<lambda>i. tab (length v) (\<lambda>j. if i = j then v ! i else 0))"

text \<open>\<^verbatim>\<open>x.norm(dim = 1)\<close> of a matrix: the Euclidean norm of every row.\<close>

definition row_norms :: "mat \<Rightarrow> vec" where
  "row_norms A = map (\<lambda>r. sqrt (\<Sum>x\<leftarrow>r. x ^ 2)) A"

text \<open>
  \<^verbatim>\<open>torch.cat(blocks)\<close> along dimension 0: an empty list of tensors raises, and so do
  blocks whose rows differ in length.
\<close>

definition cat :: "mat list \<Rightarrow> error + mat" where
  "cat blocks =
     (if blocks = [] then Inl (RuntimeError ''torch.cat(): expected a non-empty list of Tensors'')
      else if list_all (\<lambda>r. length r = ncols (concat blocks)) (concat blocks)
      then Inr (concat blocks)
      else Inl (RuntimeError ''torch.cat(): sizes of tensors must match''))"

text \<open>
  The shape of a rectangular nested list: \<open>length\<close> is the outermost dimension,
  \<open>dim1\<close>, \<open>dim2\<close>, \<open>dim3\<close> the next ones. The predicates say that a nested list
  is a tensor of the given shape.
\<close>

definition dim1 :: "'a list list \<Rightarrow> nat" where
  "dim1 x = ncols x"

definition dim2 :: "'a list list list \<Rightarrow> nat" where
  "dim2 x = ncols (concat x)"

definition dim3 :: "'a list list list list \<Rightarrow> nat" where
  "dim3 x = ncols (concat (concat x))"

definition is_tensor3 :: "nat \<Rightarrow> nat \<Rightarrow> nat \<Rightarrow> 'a list list list \<Rightarrow> bool" where
  "is_tensor3 a b c x = (length x = a \<and> list_all (is_mat b c) x)"

definition is_tensor4 :: "nat \<Rightarrow> nat \<Rightarrow> nat \<Rightarrow> nat \<Rightarrow> 'a list list list list \<Rightarrow> bool" where
  "is_tensor4 a b c d x = (length x = a \<and> list_all (is_tensor3 b c d) x)"

text \<open>
  Broadcasting: two extents are compatible when they are equal or one of them
  is 1, and a dimension of extent 1 is read at index 0 whatever the index.
\<close>

definition bc_ok :: "nat \<Rightarrow> nat \<Rightarrow> bool" where
  "bc_ok a b = (a = b \<or> a = 1 \<or> b = 1)"

definition bc_dim :: "nat \<Rightarrow> nat \<Rightarrow> nat" where
  "bc_dim a b = (if a = 1 then b else a)"

definition bget :: "'a list \<Rightarrow> nat \<Rightarrow> 'a" where
  "bget xs i = xs ! (if length xs = 1 then 0 else i)"

text \<open>\<^verbatim>\<open>x[index]\<close> on the first dimension; out of range raises.\<close>

definition getitem :: "'a list \<Rightarrow> nat \<Rightarrow> error + 'a" where
  "getitem x i = (if i < length x then Inr (x ! i) else Inl IndexError)"

text \<open>\<^verbatim>\<open>torch.einsum("ijk,ijl->ijkl", a, b)\<close>: the outer product per \<open>(i, j)\<close>.\<close>

definition einsum_ijk_ijl_ijkl :: "tensor3 \<Rightarrow> tensor3 \<Rightarrow> error + tensor4" where
  "einsum_ijk_ijl_ijkl a b =
     (if bc_ok (length a) (length b) \<and> bc_ok (dim1 a) (dim1 b)
      then Inr (tab (bc_dim (length a) (length b)) (\<lambda>i. tab (bc_dim (dim1 a) (dim1 b)) (\<lambda>j.
             tab (dim2 a) (\<lambda>k. tab (dim2 b) (\<lambda>l.
               bget (bget a i) j ! k * bget (bget b i) j ! l)))))
      else Inl (RuntimeError ''einsum(): operands do not broadcast''))"

text \<open>\<^verbatim>\<open>torch.einsum("ijkl,ijk->ijl", a, b)\<close>: contraction over \<open>k\<close>.\<close>

definition einsum_ijkl_ijk_ijl :: "tensor4 \<Rightarrow> tensor3 \<Rightarrow> error + tensor3" where
  "einsum_ijkl_ijk_ijl a b =
     (if bc_ok (length a) (length b) \<and> bc_ok (dim1 a) (dim1 b) \<and> bc_ok (dim2 a) (dim2 b)
      then Inr (tab (bc_dim (length a) (length b)) (\<lambda>i. tab (bc_dim (dim1 a) (dim1 b)) (\<lambda>j.
             tab (dim3 a) (\<lambda>l. \<Sum>k<bc_dim (dim2 a) (dim2 b).
               bget (bget (bget a i) j) k ! l * bget (bget (bget b i) j) k))))
      else Inl (RuntimeError ''einsum(): operands do not broadcast''))"

text \<open>\<^verbatim>\<open>torch.einsum("ijkl,ijl->ijk", a, b)\<close>: contraction over \<open>l\<close>.\<close>

definition einsum_ijkl_ijl_ijk :: "tensor4 \<Rightarrow> tensor3 \<Rightarrow> error + tensor3" where
  "einsum_ijkl_ijl_ijk a b =
     (if bc_ok (length a) (length b) \<and> bc_ok (dim1 a) (dim1 b) \<and> bc_ok (dim3 a) (dim2 b)
      then Inr (tab (bc_dim (length a) (length b)) (\<lambda>i. tab (bc_dim (dim1 a) (dim1 b)) (\<lambda>j.
             tab (dim2 a) (\<lambda>k. \<Sum>l<bc_dim (dim3 a) (dim2 b).
               bget (bget (bget a i) j ! k) l * bget (bget (bget b i) j) l))))
      else Inl (RuntimeError ''einsum(): operands do not broadcast''))"

text \<open>
  Elementwise sum and difference of two tensors of one shape, and
  \<^verbatim>\<open>torch.zeros_like\<close>.
\<close>

definition add4 :: "tensor4 \<Rightarrow> tensor4 \<Rightarrow> tensor4" where
  "add4 a b = map2 (map2 (map2 (map2 (+)))) a b"

definition sub4 :: "tensor4 \<Rightarrow> tensor4 \<Rightarrow> tensor4" where
  "sub4 a b = map2 (map2 (map2 (map2 (-)))) a b"

definition zeros_like4 :: "tensor4 \<Rightarrow> tensor4" where
  "zeros_like4 a = map (map (map (map (\<lambda>_. 0)))) a"

definition zeros_like3 :: "tensor3 \<Rightarrow> tensor3" where
  "zeros_like3 a = map (map (map (\<lambda>_. 0))) a"

text \<open>An elementwise binary operation on tensors of rank 3 and 4, with broadcasting.\<close>

definition bc3 :: "(real \<Rightarrow> real \<Rightarrow> real) \<Rightarrow> tensor3 \<Rightarrow> tensor3 \<Rightarrow> error + tensor3" where
  "bc3 f a b =
     (if bc_ok (length a) (length b) \<and> bc_ok (dim1 a) (dim1 b) \<and> bc_ok (dim2 a) (dim2 b)
      then Inr (tab (bc_dim (length a) (length b)) (\<lambda>i. tab (bc_dim (dim1 a) (dim1 b)) (\<lambda>j.
             tab (bc_dim (dim2 a) (dim2 b)) (\<lambda>k.
               f (bget (bget (bget a i) j) k) (bget (bget (bget b i) j) k)))))
      else Inl (RuntimeError ''operands cannot be broadcast together''))"

definition bc4 :: "(real \<Rightarrow> real \<Rightarrow> real) \<Rightarrow> tensor4 \<Rightarrow> tensor4 \<Rightarrow> error + tensor4" where
  "bc4 f a b =
     (if bc_ok (length a) (length b) \<and> bc_ok (dim1 a) (dim1 b) \<and> bc_ok (dim2 a) (dim2 b) \<and>
         bc_ok (dim3 a) (dim3 b)
      then Inr (tab (bc_dim (length a) (length b)) (\<lambda>i. tab (bc_dim (dim1 a) (dim1 b)) (\<lambda>j.
             tab (bc_dim (dim2 a) (dim2 b)) (\<lambda>k. tab (bc_dim (dim3 a) (dim3 b)) (\<lambda>l.
               f (bget (bget (bget (bget a i) j) k) l) (bget (bget (bget (bget b i) j) k) l))))))
      else Inl (RuntimeError ''operands cannot be broadcast together''))"

text \<open>
  An in-place operation \<^verbatim>\<open>a op= b\<close>: \<open>b\<close> is broadcast to the shape of \<open>a\<close>, which
  cannot grow.
\<close>

definition inplace4 :: "(real \<Rightarrow> real \<Rightarrow> real) \<Rightarrow> tensor4 \<Rightarrow> tensor4 \<Rightarrow> error + tensor4" where
  "inplace4 f a b =
     (if (length b = length a \<or> length b = 1) \<and> (dim1 b = dim1 a \<or> dim1 b = 1) \<and>
         (dim2 b = dim2 a \<or> dim2 b = 1) \<and> (dim3 b = dim3 a \<or> dim3 b = 1)
      then Inr (tab (length a) (\<lambda>i. tab (dim1 a) (\<lambda>j. tab (dim2 a) (\<lambda>k. tab (dim3 a) (\<lambda>l.
               f (a ! i ! j ! k ! l) (bget (bget (bget (bget b i) j) k) l))))))
      else Inl (RuntimeError ''output with this shape does not match the broadcast shape''))"

text \<open>
  \<^verbatim>\<open>A @ B\<close> on tensors of rank 4: a matrix product per batch entry and head, the
  two leading dimensions broadcast.
\<close>

definition matmul4 :: "tensor4 \<Rightarrow> tensor4 \<Rightarrow> error + tensor4" where
  "matmul4 A B =
     (if bc_ok (length A) (length B) \<and> bc_ok (dim1 A) (dim1 B) \<and> dim3 A = dim2 B
      then Inr (tab (bc_dim (length A) (length B)) (\<lambda>b. tab (bc_dim (dim1 A) (dim1 B)) (\<lambda>h.
             tab (dim2 A) (\<lambda>i. tab (dim3 B) (\<lambda>j.
               \<Sum>k<dim3 A. bget (bget A b) h ! i ! k * bget (bget B b) h ! k ! j)))))
      else Inl (RuntimeError ''matmul: shapes cannot be multiplied''))"

text \<open>\<^verbatim>\<open>x.transpose(-2, -1)\<close>, \<^verbatim>\<open>x.sum(dim=-2)\<close> and \<^verbatim>\<open>x.unsqueeze(-1)\<close>.\<close>

definition transpose_last :: "tensor4 \<Rightarrow> tensor4" where
  "transpose_last x = map (map t_mat) x"

definition sum_dim_m2 :: "tensor4 \<Rightarrow> tensor3" where
  "sum_dim_m2 x = map (map (\<lambda>A. tab (ncols A) (\<lambda>m. \<Sum>l<length A. A ! l ! m))) x"

definition unsqueeze_last :: "tensor3 \<Rightarrow> tensor4" where
  "unsqueeze_last x = map (map (map (\<lambda>e. [e]))) x"

text \<open>
  The permutations \<^verbatim>\<open>torch.einsum('bhlx->lbhx', x)\<close> (\<^verbatim>\<open>_reshape\<close>),
  \<^verbatim>\<open>torch.einsum('lbhx->bhlx', x)\<close> (\<^verbatim>\<open>_dereshape\<close>, also written
  \<^verbatim>\<open>'lbhd->bhld'\<close>) and \<^verbatim>\<open>torch.einsum('lbh->bhl', d)\<close>.
\<close>

definition reshape_lbhx :: "tensor4 \<Rightarrow> tensor4" where
  "reshape_lbhx x = tab (dim2 x) (\<lambda>l. map (map (\<lambda>rows. rows ! l)) x)"

definition dereshape_bhlx :: "tensor4 \<Rightarrow> tensor4" where
  "dereshape_bhlx x =
     tab (dim1 x) (\<lambda>b. tab (dim2 x) (\<lambda>h. tab (length x) (\<lambda>l. x ! l ! b ! h)))"

definition einsum_lbh_bhl :: "tensor3 \<Rightarrow> tensor3" where
  "einsum_lbh_bhl d = tab (dim1 d) (\<lambda>b. tab (dim2 d) (\<lambda>h. tab (length d) (\<lambda>l. d ! l ! b ! h)))"

subsection \<open>Randomness\<close>

text \<open>
  The random sources are streams that the code consumes: \<open>normals\<close> feeds
  \<^verbatim>\<open>torch.randn\<close>, \<open>uniforms\<close> (numbers in the unit interval) feeds the Bernoulli
  draws of the stochastic redraw and of dropout.
\<close>

record world =
  normals :: "nat \<Rightarrow> real"
  npos :: nat
  uniforms :: "nat \<Rightarrow> real"
  upos :: nat

definition randn :: "nat \<Rightarrow> nat \<Rightarrow> world \<Rightarrow> mat \<times> world" where
  "randn n m w =
     (tab n (\<lambda>i. tab m (\<lambda>j. normals w (npos w + i * m + j))), w\<lparr>npos := npos w + n * m\<rparr>)"

text \<open>
  \<^verbatim>\<open>np.random.default_rng().binomial(1, p)\<close>: one Bernoulli trial, 1 with
  probability \<open>p\<close>; a \<open>p\<close> outside the unit interval raises.
\<close>

definition binomial1 :: "real \<Rightarrow> world \<Rightarrow> error + (nat \<times> world)" where
  "binomial1 p w =
     (if p < 0 \<or> 1 < p then Inl (ValueError ''p < 0, p > 1 or p is NaN'')
      else Inr (if uniforms w (upos w) < p then 1 else 0, w\<lparr>upos := upos w + 1\<rparr>))"

text \<open>Python's \<^verbatim>\<open>round\<close> of a float: to the nearest integer, ties to the even one.\<close>

definition py_round :: "real \<Rightarrow> int" where
  "py_round x = (if frac x = 1 / 2 \<and> even \<lfloor>x\<rfloor> then \<lfloor>x\<rfloor> else \<lfloor>x + 1 / 2\<rfloor>)"

subsection \<open>The module\<close>

text \<open>\<^verbatim>\<open>nn.Linear\<close>: \<open>y = x W\<^sup>T + b\<close> on the last dimension.\<close>

record linear =
  weight :: mat
  bias :: vec

text \<open>
  The attributes of a \<^verbatim>\<open>PerformerAttention\<close> instance. The constructor copies the
  configuration's entries into the instance, so an attribute exists only if the
  configuration has it. \<^verbatim>\<open>compute_attention_with_projected_queries_and_keys\<close> reads
  an attribute spelled \<^verbatim>\<open>casual\<close>, \<^verbatim>\<open>forward\<close> reads \<^verbatim>\<open>causal\<close>; the field
  \<open>casual\<close> is \<open>None\<close> when the instance has no attribute of that spelling.
\<close>

record module =
  num_heads :: nat
  d_model :: nat
  kernel_type :: string
  causal :: bool
  casual :: "bool option"
  use_orthogonal_features :: bool
  regularize_feature_norms :: bool
  feature_redraw_interval :: "int option"
  redraw_stochastically :: bool
  redraw_verbose :: bool
  normalize_output :: bool
  normalization_stabilizer :: real
  kernel_epsilon :: real
  attention_dropout :: real
  use_qkv_linear_layers :: bool
  training :: bool
  should_fallback_to_softmax :: "nat \<Rightarrow> int \<Rightarrow> bool \<Rightarrow> bool"
  q_lin :: linear
  k_lin :: linear
  v_lin :: linear
  out_lin :: linear
  calls_since_last_redraw :: int
  random_features :: "mat option"

subsection \<open>Generating and redrawing the feature matrix\<close>

text \<open>
  \<^verbatim>\<open>get_square_block(size)\<close> (the size is \<open>sz\<close> here): a Gaussian square matrix, its QR decomposition, the
  transpose of the orthogonal factor. \<^verbatim>\<open>torch.qr\<close> is a library routine and a
  parameter \<open>qr\<close> of the model.
\<close>

definition get_square_block :: "(mat \<Rightarrow> mat \<times> mat) \<Rightarrow> nat \<Rightarrow> world \<Rightarrow> mat \<times> world" where
  "get_square_block qr sz w =
     (let (unstructured_block, w') = randn sz sz w;
          (q, r) = qr unstructured_block
      in (t_mat q, w'))"

text \<open>\<^verbatim>\<open>[get_square_block(dim_per_head) for _ in range(num_full_blocks)]\<close>\<close>

fun square_blocks :: "(mat \<Rightarrow> mat \<times> mat) \<Rightarrow> nat \<Rightarrow> nat \<Rightarrow> world \<Rightarrow> mat list \<times> world" where
  "square_blocks qr sz 0 w = ([], w)"
| "square_blocks qr sz (Suc n) w =
     (let (b, w') = get_square_block qr sz w;
          (bs, w'') = square_blocks qr sz n w'
      in (b # bs, w''))"

text \<open>
  \<^verbatim>\<open>_generate_feature_matrix\<close>. The result is the value the Python function returns
  (\<open>None\<close> where it falls off its end), the instance and the random sources
  afterwards. Without orthogonal features the function returns the Gaussian
  matrix and assigns nothing.
\<close>

definition generate_feature_matrix ::
  "(mat \<Rightarrow> mat \<times> mat) \<Rightarrow> module \<Rightarrow> world \<Rightarrow> error + (mat option \<times> module \<times> world)" where
  "generate_feature_matrix qr self w =
     (if num_heads self = 0 then Inl ZeroDivisionError
      else let dim_per_head = d_model self div num_heads self in
      if dim_per_head = 0 then Inl (ValueError ''cannot convert float NaN to integer'')
      else let num_rows = nat (py_round (real dim_per_head * ln (real dim_per_head))) in
      if \<not> use_orthogonal_features self
      then (let (m, w') = randn num_rows dim_per_head w in Inr (Some m, self, w'))
      else
        let num_full_blocks = num_rows div dim_per_head;
            (block_list, w1) = square_blocks qr dim_per_head num_full_blocks w;
            remaining_rows = num_rows - num_full_blocks * dim_per_head;
            (block_list, w2) =
               (if remaining_rows > 0
                then (let (q, w') = get_square_block qr dim_per_head w1
                      in (block_list @ [take remaining_rows q], w'))
                else (block_list, w1))
        in bnd (cat block_list) (\<lambda>final_matrix.
           if regularize_feature_norms self
           then Inr (None,
                  self\<lparr>random_features :=
                    Some (map (map (\<lambda>x. x * real dim_per_head powr (1 / 2))) final_matrix)\<rparr>, w2)
           else
             let (g, w3) = randn num_rows dim_per_head w2;
                 multiplier = row_norms g
             in bnd (matmul (diag multiplier) final_matrix) (\<lambda>final_matrix.
                  Inr (None, self\<lparr>random_features := Some final_matrix\<rparr>, w3))))"

text \<open>
  \<^verbatim>\<open>redraw_features_now\<close>: reads \<^verbatim>\<open>self.random_features.device\<close> (an
  \<^verbatim>\<open>AttributeError\<close> on \<^verbatim>\<open>None\<close>), generates, resets the counter. Logging has no
  effect on the state.
\<close>

definition redraw_features_now ::
  "(mat \<Rightarrow> mat \<times> mat) \<Rightarrow> module \<Rightarrow> world \<Rightarrow> error + (module \<times> world)" where
  "redraw_features_now qr self w =
     (case random_features self of
        None \<Rightarrow> Inl (AttributeError ''NoneType object has no attribute device'')
      | Some _ \<Rightarrow>
          bnd (generate_feature_matrix qr self w) (\<lambda>(_, self', w').
            Inr (self'\<lparr>calls_since_last_redraw := 0\<rparr>, w')))"

text \<open>\<^verbatim>\<open>_redraw_features_if_needed\<close>\<close>

definition redraw_features_if_needed ::
  "(mat \<Rightarrow> mat \<times> mat) \<Rightarrow> module \<Rightarrow> world \<Rightarrow> error + (module \<times> world)" where
  "redraw_features_if_needed qr self w =
     (case random_features self of
        None \<Rightarrow> bnd (generate_feature_matrix qr self w) (\<lambda>(_, self', w'). Inr (self', w'))
      | Some _ \<Rightarrow>
         (case feature_redraw_interval self of
            None \<Rightarrow> Inr (self, w)
          | Some interval \<Rightarrow>
              if redraw_stochastically self then
                (if interval = 0 then Inl ZeroDivisionError
                 else bnd (binomial1 (1 / real_of_int interval) w) (\<lambda>(coin, w').
                        if coin \<noteq> 0 then redraw_features_now qr self w' else Inr (self, w')))
              else if calls_since_last_redraw self \<ge> interval then redraw_features_now qr self w
              else Inr (self\<lparr>calls_since_last_redraw := calls_since_last_redraw self + 1\<rparr>, w)))"

text \<open>\<open>n\<close> consecutive calls of the scheduler, and \<open>n\<close> consecutive redraws.\<close>

fun scheduler_calls ::
  "(mat \<Rightarrow> mat \<times> mat) \<Rightarrow> nat \<Rightarrow> module \<Rightarrow> world \<Rightarrow> error + (module \<times> world)" where
  "scheduler_calls qr 0 self w = Inr (self, w)"
| "scheduler_calls qr (Suc n) self w =
     bnd (scheduler_calls qr n self w) (\<lambda>(self', w'). redraw_features_if_needed qr self' w')"

fun redraws ::
  "(mat \<Rightarrow> mat \<times> mat) \<Rightarrow> nat \<Rightarrow> module \<Rightarrow> world \<Rightarrow> error + (module \<times> world)" where
  "redraws qr 0 self w = Inr (self, w)"
| "redraws qr (Suc n) self w =
     bnd (redraws qr n self w) (\<lambda>(self', w'). redraw_features_now qr self' w')"

text \<open>
  The scheduler's standing conditions on the counter-driven path: an interval is
  configured, redraws are not stochastic, a feature matrix exists.
\<close>

definition counter_driven :: "int \<Rightarrow> module \<Rightarrow> bool" where
  "counter_driven k self =
     (feature_redraw_interval self = Some k \<and> \<not> redraw_stochastically self \<and>
      random_features self \<noteq> None)"

subsection \<open>The causal numerator and denominator\<close>

text \<open>
  \<^verbatim>\<open>CausalNumerator.forward\<close> on tensors of shape \<open>[L, B, H, M]\<close> (\<open>q_prime\<close>,
  \<open>k_prime\<close>) and \<open>[L, B, H, D]\<close> (\<open>v\<close>). \<open>numerator_loop \<dots> n\<close> is the state
  \<open>(sums, result)\<close> after \<open>n\<close> rounds of the loop; round \<open>index\<close> is
  \<open>numerator_step \<dots> index\<close>. The function returns the stacked result and the
  final \<open>sums\<close>, which it saves for the backward pass. (The variables \<^verbatim>\<open>sums\<close> and
  \<^verbatim>\<open>mask\<close> of the source are \<open>the_sums\<close> and \<open>msk\<close> here.)
\<close>

definition numerator_step ::
  "tensor4 \<Rightarrow> tensor4 \<Rightarrow> tensor4 \<Rightarrow> nat \<Rightarrow> tensor4 \<times> tensor4 \<Rightarrow> error + (tensor4 \<times> tensor4)" where
  "numerator_step q_prime k_prime v index st =
     (case st of (the_sums, result) \<Rightarrow>
        bnd (getitem k_prime index) (\<lambda>k_i. bnd (getitem v index) (\<lambda>v_i.
        bnd (einsum_ijk_ijl_ijkl k_i v_i) (\<lambda>kv.
        bnd (getitem q_prime index) (\<lambda>q_i.
        bnd (einsum_ijkl_ijk_ijl (add4 the_sums kv) q_i) (\<lambda>r.
        Inr (add4 the_sums kv, result @ [r])))))))"

fun numerator_loop ::
  "tensor4 \<Rightarrow> tensor4 \<Rightarrow> tensor4 \<Rightarrow> nat \<Rightarrow> error + (tensor4 \<times> tensor4)" where
  "numerator_loop q_prime k_prime v 0 =
     bnd (getitem k_prime 0) (\<lambda>k_0. bnd (getitem v 0) (\<lambda>v_0.
     bnd (einsum_ijk_ijl_ijkl k_0 v_0) (\<lambda>kv. Inr (zeros_like4 kv, []))))"
| "numerator_loop q_prime k_prime v (Suc n) =
     bnd (numerator_loop q_prime k_prime v n) (numerator_step q_prime k_prime v n)"

definition CausalNumerator_forward ::
  "tensor4 \<Rightarrow> tensor4 \<Rightarrow> tensor4 \<Rightarrow> error + (tensor4 \<times> tensor4)" where
  "CausalNumerator_forward q_prime k_prime v =
     bnd (numerator_loop q_prime k_prime v (length q_prime)) (\<lambda>(the_sums, result).
       if result = [] then Inl (RuntimeError ''torch.cat(): expected a non-empty list of Tensors'')
       else Inr (result, the_sums))"

text \<open>
  \<^verbatim>\<open>CausalNumerator.backward\<close>. The state of its loop is
  \<open>(grads, gr_sums, q_grads, k_grads, v_grads)\<close>; round \<open>j\<close> works on position
  \<open>index = L - 1 - j\<close>. The gradient lists are reversed at the end.
\<close>

definition numerator_backward_step ::
  "tensor4 \<Rightarrow> tensor4 \<Rightarrow> tensor4 \<Rightarrow> tensor4 \<Rightarrow> nat \<Rightarrow>
   tensor4 \<times> tensor4 \<times> tensor4 \<times> tensor4 \<times> tensor4 \<Rightarrow>
   error + (tensor4 \<times> tensor4 \<times> tensor4 \<times> tensor4 \<times> tensor4)" where
  "numerator_backward_step q_prime k_prime v grad_outputs index st =
     (case st of (grads, gr_sums, q_grads, k_grads, v_grads) \<Rightarrow>
        bnd (getitem grad_outputs index) (\<lambda>g_i.
        bnd (einsum_ijkl_ijl_ijk gr_sums g_i) (\<lambda>q_grad.
        bnd (getitem q_prime index) (\<lambda>q_i.
        bnd (einsum_ijk_ijl_ijkl q_i g_i) (\<lambda>qg.
        bnd (getitem k_prime index) (\<lambda>k_i.
        bnd (einsum_ijkl_ijl_ijk (add4 grads qg) k_i) (\<lambda>k_grad.
        bnd (einsum_ijkl_ijk_ijl (add4 grads qg) k_i) (\<lambda>v_grad.
        bnd (getitem v index) (\<lambda>v_i.
        bnd (einsum_ijk_ijl_ijkl k_i v_i) (\<lambda>kv.
        Inr (add4 grads qg, sub4 gr_sums kv,
             q_grads @ [q_grad], k_grads @ [k_grad], v_grads @ [v_grad])))))))))))"

fun numerator_backward_loop ::
  "tensor4 \<Rightarrow> tensor4 \<Rightarrow> tensor4 \<Rightarrow> tensor4 \<Rightarrow> tensor4 \<Rightarrow> nat \<Rightarrow>
   error + (tensor4 \<times> tensor4 \<times> tensor4 \<times> tensor4 \<times> tensor4)" where
  "numerator_backward_loop q_prime k_prime v the_sums grad_outputs 0 =
     bnd (getitem k_prime 0) (\<lambda>k_0. bnd (getitem v 0) (\<lambda>v_0.
     bnd (einsum_ijk_ijl_ijkl k_0 v_0) (\<lambda>kv. Inr (zeros_like4 kv, the_sums, [], [], []))))"
| "numerator_backward_loop q_prime k_prime v the_sums grad_outputs (Suc j) =
     bnd (numerator_backward_loop q_prime k_prime v the_sums grad_outputs j)
       (numerator_backward_step q_prime k_prime v grad_outputs (length q_prime - 1 - j))"

definition CausalNumerator_backward ::
  "tensor4 \<Rightarrow> tensor4 \<Rightarrow> tensor4 \<Rightarrow> tensor4 \<Rightarrow> tensor4 \<Rightarrow>
   error + (tensor4 \<times> tensor4 \<times> tensor4)" where
  "CausalNumerator_backward q_prime k_prime v the_sums grad_outputs =
     bnd (numerator_backward_loop q_prime k_prime v the_sums grad_outputs (length q_prime))
       (\<lambda>(grads, gr_sums, q_grads, k_grads, v_grads).
          if q_grads = [] then Inl (RuntimeError ''torch.cat(): expected a non-empty list of Tensors'')
          else Inr (rev q_grads, rev k_grads, rev v_grads))"

text \<open>
  \<^verbatim>\<open>CausalDenominator.forward\<close> on \<open>[L, B, H, M]\<close> tensors; the result has shape
  \<open>[L, B, H]\<close>. \<^verbatim>\<open>torch.sum(x, dim=2)\<close> sums the last dimension of a rank-3 tensor.
\<close>

definition sum_dim2 :: "tensor3 \<Rightarrow> mat" where
  "sum_dim2 x = map (map sum_list) x"

definition denominator_step ::
  "tensor4 \<Rightarrow> tensor4 \<Rightarrow> nat \<Rightarrow> tensor3 \<times> tensor3 \<Rightarrow> error + (tensor3 \<times> tensor3)" where
  "denominator_step q_prime k_prime index st =
     (case st of (the_sums, result) \<Rightarrow>
        bnd (getitem k_prime index) (\<lambda>k_i. bnd (bc3 (+) the_sums k_i) (\<lambda>the_sums.
        bnd (getitem q_prime index) (\<lambda>q_i. bnd (bc3 (*) q_i the_sums) (\<lambda>qs.
        Inr (the_sums, result @ [sum_dim2 qs]))))))"

fun denominator_loop :: "tensor4 \<Rightarrow> tensor4 \<Rightarrow> nat \<Rightarrow> error + (tensor3 \<times> tensor3)" where
  "denominator_loop q_prime k_prime 0 =
     bnd (getitem k_prime 0) (\<lambda>k_0. Inr (zeros_like3 k_0, []))"
| "denominator_loop q_prime k_prime (Suc n) =
     bnd (denominator_loop q_prime k_prime n) (denominator_step q_prime k_prime n)"

definition CausalDenominator_forward :: "tensor4 \<Rightarrow> tensor4 \<Rightarrow> error + (tensor3 \<times> tensor3)" where
  "CausalDenominator_forward q_prime k_prime =
     bnd (denominator_loop q_prime k_prime (length q_prime)) (\<lambda>(the_sums, result).
       if result = [] then Inl (RuntimeError ''torch.cat(): expected a non-empty list of Tensors'')
       else Inr (result, the_sums))"

text \<open>
  The scalar that the backward pass differentiates: the inner product of the
  output gradients \<open>g\<close> with the output of the forward recurrence.
\<close>

definition inner4 :: "tensor4 \<Rightarrow> tensor4 \<Rightarrow> real" where
  "inner4 a b = (\<Sum>(x, y)\<leftarrow>zip (concat (concat (concat a))) (concat (concat (concat b))). x * y)"

definition numerator_loss :: "tensor4 \<Rightarrow> tensor4 \<Rightarrow> tensor4 \<Rightarrow> tensor4 \<Rightarrow> real" where
  "numerator_loss q_prime k_prime v g =
     (case CausalNumerator_forward q_prime k_prime v of
        Inr (output, the_sums) \<Rightarrow> inner4 g output
      | Inl e \<Rightarrow> 0)"

subsection \<open>Aggregation\<close>

text \<open>
  \<^verbatim>\<open>k_prime *= mask.unsqueeze(1).unsqueeze(-1).expand_as(k_prime)\<close> for a mask of
  shape \<open>(bs, L)\<close>: \<^verbatim>\<open>expand_as\<close> raises unless each dimension of the mask is 1 or
  that of \<open>k_prime\<close>.
\<close>

definition apply_mask :: "tensor4 \<Rightarrow> mat \<Rightarrow> error + tensor4" where
  "apply_mask k_prime msk =
     (if (length msk = length k_prime \<or> length msk = 1) \<and>
         (dim1 msk = dim2 k_prime \<or> dim1 msk = 1)
      then Inr (tab (length k_prime) (\<lambda>b. tab (dim1 k_prime) (\<lambda>h. tab (dim2 k_prime) (\<lambda>l.
             tab (dim3 k_prime) (\<lambda>x. k_prime ! b ! h ! l ! x * bget (bget msk b) l)))))
      else Inl (RuntimeError ''expand_as: the expanded size must match the existing size''))"

text \<open>
  The non-causal normaliser of the PyTorch file,
  \<^verbatim>\<open>q_prime @ k_prime.sum(dim=-2).unsqueeze(-1)\<close>.
\<close>

definition normalizer :: "tensor4 \<Rightarrow> tensor4 \<Rightarrow> error + tensor4" where
  "normalizer q_prime k_prime = matmul4 q_prime (unsqueeze_last (sum_dim_m2 k_prime))"

text \<open>
  The body of \<^verbatim>\<open>compute_attention_with_projected_queries_and_keys\<close> (PyTorch) up
  to its last line: the value of \<open>output\<close> that is handed to
  \<^verbatim>\<open>_finalize_attention_output\<close>. The flag is read from the attribute \<^verbatim>\<open>casual\<close>.
  The division is real division: with a positive stabiliser the divisor is never
  zero.
\<close>

definition attention_output ::
  "module \<Rightarrow> tensor4 \<Rightarrow> tensor4 \<Rightarrow> tensor4 \<Rightarrow> mat option \<Rightarrow> error + tensor4" where
  "attention_output self q_prime k_prime v msk =
     bnd (case msk of None \<Rightarrow> Inr k_prime | Some m \<Rightarrow> apply_mask k_prime m) (\<lambda>k_prime.
     let k_prime_t = transpose_last k_prime in
     bnd (case casual self of None \<Rightarrow> Inl (AttributeError ''casual'') | Some c \<Rightarrow> Inr c) (\<lambda>is_casual.
     bnd (if is_casual
          then bnd (CausalNumerator_forward (reshape_lbhx q_prime) (reshape_lbhx k_prime)
                      (reshape_lbhx v)) (\<lambda>(output, the_sums).
                 Inr (dereshape_bhlx output,
                      dereshape_bhlx (reshape_lbhx q_prime), dereshape_bhlx (reshape_lbhx k_prime)))
          else bnd (matmul4 k_prime_t v) (\<lambda>kv. bnd (matmul4 q_prime kv) (\<lambda>output.
                 Inr (output, q_prime, k_prime)))) (\<lambda>(output, q_prime, k_prime).
     if normalize_output self then
       bnd (if is_casual
            then bnd (CausalDenominator_forward (reshape_lbhx q_prime) (reshape_lbhx k_prime))
                   (\<lambda>(d, the_sums). Inr (unsqueeze_last (einsum_lbh_bhl d)))
            else normalizer q_prime k_prime) (\<lambda>d.
       inplace4 (/) output
         (map (map (map (map (stabilize (normalization_stabilizer self))))) d))
     else Inr output)))"

text \<open>
  \<^verbatim>\<open>nn.Linear\<close> applied to a tensor of shape \<open>(bs, L, in_features)\<close>; the weight
  has shape \<open>(out_features, in_features)\<close>.
\<close>

definition linear_apply :: "linear \<Rightarrow> tensor3 \<Rightarrow> error + tensor3" where
  "linear_apply lin x =
     (if dim2 x = ncols (weight lin) \<and> length (bias lin) = length (weight lin)
      then Inr (map (map (\<lambda>row. tab (length (weight lin)) (\<lambda>out.
             (\<Sum>i<ncols (weight lin). row ! i * weight lin ! out ! i) + bias lin ! out))) x)
      else Inl (RuntimeError ''mat1 and mat2 shapes cannot be multiplied''))"

text \<open>
  \<^verbatim>\<open>unshape\<close>: \<^verbatim>\<open>x.transpose(1, 2).contiguous().view(x.shape[0], -1, x.shape[1] * x.shape[-1])\<close>
  turns \<open>(bs, H, L, d)\<close> into \<open>(bs, L, H * d)\<close>.
\<close>

definition unshape :: "tensor4 \<Rightarrow> tensor3" where
  "unshape x = map (\<lambda>xb. tab (dim1 xb) (\<lambda>l. concat (map (\<lambda>xh. xh ! l) xb))) x"

text \<open>
  The truth value of a tensor in \<^verbatim>\<open>if att_map_to_output:\<close>: that of its only
  element, and an error for a tensor with more than one element.
\<close>

definition tensor_bool :: "tensor4 \<Rightarrow> error + bool" where
  "tensor_bool a =
     (case concat (concat (concat a)) of
        [e] \<Rightarrow> Inr (e \<noteq> 0)
      | _ \<Rightarrow> Inl (RuntimeError ''Boolean value of Tensor with more than one value is ambiguous''))"

text \<open>\<^verbatim>\<open>_finalize_attention_output\<close>; the head mask is a rank-4 tensor that broadcasts.\<close>

definition finalize_attention_output ::
  "module \<Rightarrow> tensor4 \<Rightarrow> tensor4 option \<Rightarrow> tensor4 option \<Rightarrow> error + (tensor3 \<times> tensor4 option)" where
  "finalize_attention_output self context head_mask att_map_to_output =
     bnd (case head_mask of None \<Rightarrow> Inr context | Some hm \<Rightarrow> bc4 (*) context hm) (\<lambda>context.
     bnd (linear_apply (out_lin self) (unshape context)) (\<lambda>context.
     case att_map_to_output of
       None \<Rightarrow> Inr (context, None)
     | Some a \<Rightarrow> bnd (tensor_bool a) (\<lambda>b. Inr (context, if b then Some a else None))))"

definition compute_attention_with_projected_queries_and_keys ::
  "module \<Rightarrow> tensor4 \<Rightarrow> tensor4 \<Rightarrow> tensor4 \<Rightarrow> mat option \<Rightarrow> tensor4 option \<Rightarrow>
   error + (tensor3 \<times> tensor4 option)" where
  "compute_attention_with_projected_queries_and_keys self q_prime k_prime v msk head_mask =
     bnd (attention_output self q_prime k_prime v msk) (\<lambda>output.
       finalize_attention_output self output head_mask None)"

subsection \<open>The brute-force reference\<close>

text \<open>
  The reference of the specification, written from its words: build the
  \<open>L \<times> L\<close> kernel matrix \<open>q' k'\<^sup>T\<close> for every batch entry and head, zero the entries
  above the diagonal in the causal case, normalise every row by its (stabilised)
  sum when normalisation is configured, and multiply the matrix with the values.
\<close>

definition kernel_matrix :: "bool \<Rightarrow> tensor4 \<Rightarrow> tensor4 \<Rightarrow> tensor4" where
  "kernel_matrix is_causal q_prime k_prime =
     tab (length q_prime) (\<lambda>b. tab (dim1 q_prime) (\<lambda>h. tab (dim2 q_prime) (\<lambda>t.
       tab (dim2 k_prime) (\<lambda>s.
         if is_causal \<and> t < s then 0
         else \<Sum>m<dim3 q_prime. q_prime ! b ! h ! t ! m * k_prime ! b ! h ! s ! m))))"

definition normalize_rows :: "real \<Rightarrow> tensor4 \<Rightarrow> tensor4" where
  "normalize_rows stab A =
     map (map (map (\<lambda>row. map (\<lambda>a. a / stabilize stab (sum_list row)) row))) A"

definition brute_force_attention ::
  "bool \<Rightarrow> bool \<Rightarrow> real \<Rightarrow> tensor4 \<Rightarrow> tensor4 \<Rightarrow> tensor4 \<Rightarrow> tensor4" where
  "brute_force_attention is_causal normalized stab q_prime k_prime v =
     (let A = kernel_matrix is_causal q_prime k_prime;
          W = (if normalized then normalize_rows stab A else A)
      in tab (length q_prime) (\<lambda>b. tab (dim1 q_prime) (\<lambda>h. tab (dim2 q_prime) (\<lambda>t.
           tab (dim3 v) (\<lambda>d. \<Sum>s<dim2 k_prime. W ! b ! h ! t ! s * v ! b ! h ! s ! d)))))"

subsection \<open>Aggregation in the TensorFlow file\<close>

text \<open>
  \<^verbatim>\<open>tf.math.reduce_sum(k_prime)\<close> has no axis argument: it sums every entry of the
  tensor to one number. \<^verbatim>\<open>tf.expand_dims(\<dots>, -1)\<close> makes it a tensor of rank 1 with
  one entry.
\<close>

definition tf_reduce_sum :: "tensor4 \<Rightarrow> real" where
  "tf_reduce_sum x = sum_list (concat (concat (concat x)))"

text \<open>
  \<^verbatim>\<open>a @ b\<close> in TensorFlow for \<open>a\<close> of rank 4 and \<open>b\<close> of rank 1:
  \<^verbatim>\<open>tf.linalg.matmul\<close> needs both operands of rank at least 2 and raises.
\<close>

definition tf_matmul_rank4_rank1 :: "tensor4 \<Rightarrow> vec \<Rightarrow> error + tensor4" where
  "tf_matmul_rank4_rank1 a b = Inl (RuntimeError ''InvalidArgumentError: In[1] ndims must be >= 2'')"

definition tf_normalizer :: "tensor4 \<Rightarrow> tensor4 \<Rightarrow> error + tensor4" where
  "tf_normalizer q_prime k_prime = tf_matmul_rank4_rank1 q_prime [tf_reduce_sum k_prime]"

text \<open>
  \<^verbatim>\<open>TFPerformerAttention.compute_attention_with_projected_queries_and_keys\<close> up to
  its last line. The mask of shape \<open>(bs, L)\<close> is expanded to \<open>(bs, 1, L, 1)\<close> and
  multiplied in with broadcasting.
\<close>

definition tf_attention_output ::
  "module \<Rightarrow> tensor4 \<Rightarrow> tensor4 \<Rightarrow> tensor4 \<Rightarrow> mat option \<Rightarrow> error + tensor4" where
  "tf_attention_output self q_prime k_prime v msk =
     bnd (case msk of None \<Rightarrow> Inr k_prime
          | Some m \<Rightarrow> bc4 (*) k_prime (map (\<lambda>row. [map (\<lambda>e. [e]) row]) m)) (\<lambda>k_prime.
     let k_prime_t = transpose_last k_prime in
     bnd (matmul4 k_prime_t v) (\<lambda>kv. bnd (matmul4 q_prime kv) (\<lambda>output.
     if normalize_output self then
       bnd (tf_normalizer q_prime k_prime) (\<lambda>d.
       bc4 (/) output (map (map (map (map (stabilize (normalization_stabilizer self))))) d))
     else Inr output)))"

text \<open>
  The whole TensorFlow function. Its \<^verbatim>\<open>_finalize_attention_output\<close> reads
  \<^verbatim>\<open>self.out_lin\<close> and no other attribute; it is the parameter \<open>finalize\<close>.
\<close>

definition tf_compute_attention_with_projected_queries_and_keys ::
  "(linear \<Rightarrow> tensor4 \<Rightarrow> tensor4 option \<Rightarrow> error + 'r) \<Rightarrow> module \<Rightarrow> tensor4 \<Rightarrow> tensor4 \<Rightarrow>
   tensor4 \<Rightarrow> mat option \<Rightarrow> tensor4 option \<Rightarrow> error + 'r" where
  "tf_compute_attention_with_projected_queries_and_keys finalize self q_prime k_prime v msk head_mask =
     bnd (tf_attention_output self q_prime k_prime v msk) (\<lambda>output.
       finalize (out_lin self) output head_mask)"

subsection \<open>The fallback policies\<close>

text \<open>\<^verbatim>\<open>SHORT_SEQUENCE_BEHAVIOR_CALLABLES\<close>; \<^verbatim>\<open>L < 2.0 * M\<close> compares as numbers.\<close>

definition use_softmax_eval_only :: "nat \<Rightarrow> int \<Rightarrow> bool \<Rightarrow> bool" where
  "use_softmax_eval_only L M trn = (if trn then False else real L < 2 * real_of_int M)"

definition use_softmax_eval_and_train :: "nat \<Rightarrow> int \<Rightarrow> bool \<Rightarrow> bool" where
  "use_softmax_eval_and_train L M trn = (real L < 2 * real_of_int M)"

definition never_use_softmax :: "nat \<Rightarrow> int \<Rightarrow> bool \<Rightarrow> bool" where
  "never_use_softmax L M trn = False"

definition SHORT_SEQUENCE_BEHAVIOR_CALLABLES :: "string \<Rightarrow> (nat \<Rightarrow> int \<Rightarrow> bool \<Rightarrow> bool) option" where
  "SHORT_SEQUENCE_BEHAVIOR_CALLABLES name =
     (if name = ''use_softmax_eval_only'' then Some use_softmax_eval_only
      else if name = ''use_softmax_eval_and_train'' then Some use_softmax_eval_and_train
      else if name = ''never_use_softmax'' then Some never_use_softmax
      else None)"

subsection \<open>The kernel feature map\<close>

text \<open>An elementwise map on a tensor of rank 4, and \<^verbatim>\<open>torch.cat((a, b), dim=-1)\<close>.\<close>

definition map4 :: "(real \<Rightarrow> real) \<Rightarrow> tensor4 \<Rightarrow> tensor4" where
  "map4 f x = map (map (map (map f))) x"

definition cat_last :: "tensor4 \<Rightarrow> tensor4 \<Rightarrow> tensor4" where
  "cat_last a b = map2 (map2 (map2 (@))) a b"

definition relu :: "real \<Rightarrow> real" where
  "relu x = max 0 x"

definition elu :: "real \<Rightarrow> real" where
  "elu x = (if x > 0 then x else exp x - 1)"

text \<open>
  \<^verbatim>\<open>KERNEL_CALLABLES\<close>: \<^verbatim>\<open>cosh\<close> and \<^verbatim>\<open>exp\<close> take two arguments \<open>x\<close> and \<open>h\<close>,
  \<^verbatim>\<open>elu\<close> and \<^verbatim>\<open>relu\<close> one. \<open>h\<close> has a last dimension of extent 1 and broadcasts.
\<close>

datatype kernel_callable =
    Kernel2 "tensor4 \<Rightarrow> tensor4 \<Rightarrow> error + tensor4"
  | Kernel1 "tensor4 \<Rightarrow> tensor4"

definition KERNEL_CALLABLES :: "string \<Rightarrow> kernel_callable option" where
  "KERNEL_CALLABLES name =
     (if name = ''cosh'' then Some (Kernel2 (\<lambda>x h.
        bnd (bc4 (+) h x) (\<lambda>hx. bnd (bc4 (-) h x) (\<lambda>hmx.
          Inr (cat_last (map4 exp hx) (map4 exp hmx))))))
      else if name = ''exp'' then Some (Kernel2 (\<lambda>x h. bnd (bc4 (+) h x) (\<lambda>hx. Inr (map4 exp hx))))
      else if name = ''elu'' then Some (Kernel1 (map4 (\<lambda>x. elu x + 1)))
      else if name = ''relu'' then Some (Kernel1 (map4 relu))
      else None)"

text \<open>
  \<^verbatim>\<open>self.random_features.expand(new_shape).transpose(-2, -1)\<close>: the feature matrix
  of shape \<open>(M, d)\<close> is broadcast to \<open>(bs, H, M, d\<^sub>q)\<close>, the leading dimensions and
  \<open>d\<^sub>q\<close> taken from \<open>q\<close>, and transposed. \<^verbatim>\<open>expand\<close> raises unless \<open>d\<close> is \<open>d\<^sub>q\<close> or 1.
\<close>

definition expand_features_t :: "mat \<Rightarrow> tensor4 \<Rightarrow> error + tensor4" where
  "expand_features_t rf q =
     (if ncols rf = dim3 q \<or> ncols rf = 1
      then Inr (tab (length q) (\<lambda>b. tab (dim1 q) (\<lambda>h. tab (dim3 q) (\<lambda>x. tab (length rf) (\<lambda>m.
             bget (rf ! m) x)))))
      else Inl (RuntimeError ''expand: the expanded size must match the existing size''))"

text \<open>\<^verbatim>\<open>-torch.sum(q ** 2, dim=-1, keepdim=True) / 2\<close> and \<^verbatim>\<open>torch.max(x)\<close>.\<close>

definition h_of :: "tensor4 \<Rightarrow> tensor4" where
  "h_of q = map (map (map (\<lambda>row. [- (\<Sum>x\<leftarrow>row. x ^ 2) / 2]))) q"

definition torch_max :: "tensor4 \<Rightarrow> error + real" where
  "torch_max x =
     (case concat (concat (concat x)) of
        [] \<Rightarrow> Inl (RuntimeError ''max(): Expected reduction dim to be specified for input.numel() == 0'')
      | e # es \<Rightarrow> Inr (fold max es e))"

text \<open>
  The first part of \<^verbatim>\<open>get_projected_queries_and_keys\<close>: the outputs of the
  kernel for queries and keys (\<^verbatim>\<open>q_kernel_output\<close>, \<^verbatim>\<open>k_kernel_output\<close>; for
  \<^verbatim>\<open>elu\<close> and \<^verbatim>\<open>relu\<close> the values \<^verbatim>\<open>self.kernel_fn(x)\<close>). \<^verbatim>\<open>self.kernel_fn\<close> is
  \<^verbatim>\<open>KERNEL_CALLABLES[self.kernel_type]\<close>, set by the constructor. The query
  stabiliser is \<^verbatim>\<open>h_of_q\<close> gathered at its \<^verbatim>\<open>argmax\<close> over the last dimension,
  which has extent 1: it is \<^verbatim>\<open>h_of_q\<close> itself.
\<close>

definition kernel_outputs :: "module \<Rightarrow> tensor4 \<Rightarrow> tensor4 \<Rightarrow> error + (tensor4 \<times> tensor4)" where
  "kernel_outputs self q k =
     (case random_features self of
        None \<Rightarrow> Inl (AttributeError ''NoneType object has no attribute shape'')
      | Some rf \<Rightarrow>
          bnd (expand_features_t rf q) (\<lambda>W_t.
          let q = map4 (\<lambda>x. x / real (d_model self) powr (1 / 4)) q;
              k = map4 (\<lambda>x. x / real (d_model self) powr (1 / 4)) k
          in
          bnd (matmul4 q W_t) (\<lambda>projected_q.
          bnd (matmul4 k W_t) (\<lambda>projected_k.
          if kernel_type self = ''cosh'' \<or> kernel_type self = ''exp'' then
            (let h_of_q = h_of q; h_of_k = h_of k; q_stabilizer = h_of_q in
             bnd (torch_max h_of_k) (\<lambda>k_stabilizer.
             case KERNEL_CALLABLES (kernel_type self) of
               Some (Kernel2 kernel_fn) \<Rightarrow>
                 bnd (bc4 (-) projected_q q_stabilizer) (\<lambda>xq.
                 bnd (kernel_fn xq h_of_q) (\<lambda>q_kernel_output.
                 bnd (kernel_fn (map4 (\<lambda>x. x - k_stabilizer) projected_k) h_of_k) (\<lambda>k_kernel_output.
                 Inr (q_kernel_output, k_kernel_output))))
             | _ \<Rightarrow> Inl (TypeError ''kernel_fn() takes 1 positional argument but 2 were given'')))
          else
            (case KERNEL_CALLABLES (kernel_type self) of
               Some (Kernel1 kernel_fn) \<Rightarrow> Inr (kernel_fn projected_q, kernel_fn projected_k)
             | Some (Kernel2 kernel_fn) \<Rightarrow>
                 Inl (TypeError ''kernel_fn() missing 1 required positional argument'')
             | None \<Rightarrow> Inl (KeyError (kernel_type self)))))))"

text \<open>
  \<^verbatim>\<open>get_projected_queries_and_keys\<close>: for \<^verbatim>\<open>cosh\<close> and \<^verbatim>\<open>exp\<close> the kernel outputs
  plus \<^verbatim>\<open>kernel_epsilon\<close>, times \<^verbatim>\<open>q_kernel_output.shape[-1] ** -0.5\<close> (which
  raises for 0); for the other kernels the kernel outputs plus
  \<^verbatim>\<open>kernel_epsilon\<close>.
\<close>

definition get_projected_queries_and_keys ::
  "module \<Rightarrow> tensor4 \<Rightarrow> tensor4 \<Rightarrow> error + (tensor4 \<times> tensor4)" where
  "get_projected_queries_and_keys self q k =
     bnd (kernel_outputs self q k) (\<lambda>(q_kernel_output, k_kernel_output).
       if kernel_type self = ''cosh'' \<or> kernel_type self = ''exp'' then
         (if dim3 q_kernel_output = 0 then Inl ZeroDivisionError
          else let normalizing_constant = real (dim3 q_kernel_output) powr (- (1 / 2)) in
            Inr (map4 (\<lambda>x. normalizing_constant * (x + kernel_epsilon self)) q_kernel_output,
                 map4 (\<lambda>x. normalizing_constant * (x + kernel_epsilon self)) k_kernel_output))
       else Inr (map4 (\<lambda>x. x + kernel_epsilon self) q_kernel_output,
                 map4 (\<lambda>x. x + kernel_epsilon self) k_kernel_output))"

text \<open>Every entry of a rank-4 tensor satisfies a predicate.\<close>

definition all4 :: "(real \<Rightarrow> bool) \<Rightarrow> tensor4 \<Rightarrow> bool" where
  "all4 P x = list_all (list_all (list_all (list_all P))) x"

subsection \<open>The forward pass\<close>

text \<open>
  \<^verbatim>\<open>shape(x)\<close>: \<^verbatim>\<open>x.view(bs, -1, self.num_heads, dim_per_head).transpose(1, 2)\<close>.
  The view reads the entries of \<open>x\<close> in row-major order; it raises when the
  number of entries is not a multiple of \<open>bs * num_heads * dim_per_head\<close>, or when
  that product is 0.
\<close>

definition shape_heads :: "nat \<Rightarrow> nat \<Rightarrow> nat \<Rightarrow> tensor3 \<Rightarrow> error + tensor4" where
  "shape_heads bs H dim_per_head x =
     (let flat = concat (concat x); n = bs * H * dim_per_head in
      if n = 0 \<or> length flat mod n \<noteq> 0
      then Inl (RuntimeError ''view: shape is invalid for input size'')
      else let l = length flat div n in
        Inr (tab bs (\<lambda>b. tab H (\<lambda>h. tab l (\<lambda>t. tab dim_per_head (\<lambda>i.
               flat ! (((b * l + t) * H + h) * dim_per_head + i)))))))"

text \<open>
  \<^verbatim>\<open>nn.Dropout\<close>: the identity outside training; in training every entry is
  zeroed with probability \<open>p\<close> and the others are scaled by \<open>1 / (1 - p)\<close>. One
  uniform draw per entry.
\<close>

definition dropout :: "real \<Rightarrow> bool \<Rightarrow> tensor4 \<Rightarrow> world \<Rightarrow> tensor4 \<times> world" where
  "dropout p trn x w =
     (if \<not> trn then (x, w)
      else (tab (length x) (\<lambda>b. tab (dim1 x) (\<lambda>h. tab (dim2 x) (\<lambda>i. tab (dim3 x) (\<lambda>j.
              if uniforms w (upos w + ((b * dim1 x + h) * dim2 x + i) * dim3 x + j) < p then 0
              else x ! b ! h ! i ! j / (1 - p))))),
            w\<lparr>upos := upos w + length x * dim1 x * dim2 x * dim3 x\<rparr>))"

text \<open>
  The exact path of \<^verbatim>\<open>forward\<close>: scaled scores, the padding mask (viewed as
  \<open>(bs, 1, 1, key_length)\<close>) and the causal mask (both \<^verbatim>\<open>expand_as(scores)\<close>, which
  raises on a shape that does not fit),
  softmax over the last dimension, dropout. A masked score is \<open>-\<infinity>\<close> in the
  source; here a masked position has weight 0 in the softmax. A row with every
  position masked is NaN in the source and 0 here.
\<close>

definition softmax_attention ::
  "module \<Rightarrow> nat \<Rightarrow> nat \<Rightarrow> tensor4 \<Rightarrow> tensor4 \<Rightarrow> tensor4 \<Rightarrow> mat option \<Rightarrow> world \<Rightarrow>
   error + (tensor4 \<times> tensor4 \<times> world)" where
  "softmax_attention self dm key_length q k v msk w =
     bnd (matmul4 q (transpose_last k)) (\<lambda>qk.
     let scores = map4 (\<lambda>x. x / real dm powr (1 / 2)) qk;
         bs = length scores; H = dim1 scores; q_length = dim2 scores; k_length = dim3 scores
     in
     bnd (case msk of
            None \<Rightarrow> Inr (\<lambda>b s. False)
          | Some m \<Rightarrow>
              if length (concat m) = bs * key_length \<and> (key_length = k_length \<or> key_length = 1)
              then Inr (\<lambda>b s. concat m ! (b * key_length + (if key_length = 1 then 0 else s)) = 0)
              else Inl (RuntimeError ''view or expand_as: shapes do not fit'')) (\<lambda>padded.
     bnd (if causal self
          then (if q_length = 1 then Inr (\<lambda>t s. False)
                else if k_length = q_length then Inr (\<lambda>t s. t < s)
                else Inl (RuntimeError ''expand_as: the expanded size must match the existing size''))
          else Inr (\<lambda>t s. False)) (\<lambda>future.
     let weight = (\<lambda>b h t s. if padded b s \<or> future t s then 0 else exp (scores ! b ! h ! t ! s));
         attn_map = tab bs (\<lambda>b. tab H (\<lambda>h. tab q_length (\<lambda>t. tab k_length (\<lambda>s.
                      weight b h t s / (\<Sum>s'<k_length. weight b h t s')))));
         (attn_map, w') = dropout (attention_dropout self) (training self) attn_map w
     in bnd (matmul4 attn_map v) (\<lambda>context. Inr (context, attn_map, w')))))"

text \<open>
  \<^verbatim>\<open>forward\<close>. The result is the returned tuple (the context and, on the exact
  path, the attention map), the instance and the random sources afterwards; an
  error carries no state.
  \<^verbatim>\<open>forward_heads\<close> is the part before the fallback decision: the input
  projections, the split into heads and the number \<open>m\<close> of random features
  (\<^verbatim>\<open>dim\<close> and \<^verbatim>\<open>value\<close> of the source are \<open>dm\<close> and \<open>val\<close>).
\<close>

definition forward_heads ::
  "module \<Rightarrow> tensor3 \<Rightarrow> tensor3 \<Rightarrow> tensor3 \<Rightarrow>
   error + (tensor4 \<times> tensor4 \<times> tensor4 \<times> nat \<times> nat \<times> nat \<times> int)" where
  "forward_heads self query key val =
     (let bs = length query; q_length = dim1 query; dm = dim2 query; k_length = dim1 key in
      if num_heads self = 0 then Inl ZeroDivisionError
      else let dim_per_head = d_model self div num_heads self in
      bnd (if use_qkv_linear_layers self
           then bnd (linear_apply (q_lin self) query) (\<lambda>q.
                bnd (linear_apply (k_lin self) key) (\<lambda>k.
                bnd (linear_apply (v_lin self) val) (\<lambda>v. Inr (q, k, v))))
           else Inr (query, key, val)) (\<lambda>(q, k, v).
      bnd (shape_heads bs (num_heads self) dim_per_head q) (\<lambda>q.
      bnd (shape_heads bs (num_heads self) dim_per_head k) (\<lambda>k.
      bnd (shape_heads bs (num_heads self) dim_per_head v) (\<lambda>v.
      Inr (q, k, v, q_length, k_length, dm,
           py_round (real dim_per_head * ln (real dim_per_head))))))))"

definition forward ::
  "(mat \<Rightarrow> mat \<times> mat) \<Rightarrow> module \<Rightarrow> world \<Rightarrow> tensor3 \<Rightarrow> tensor3 \<Rightarrow> tensor3 \<Rightarrow>
   mat option \<Rightarrow> tensor4 option \<Rightarrow> bool \<Rightarrow>
   error + ((tensor3 \<times> tensor4 option) \<times> module \<times> world)" where
  "forward qr self w query key val msk head_mask output_attentions =
     bnd (forward_heads self query key val) (\<lambda>(q, k, v, q_length, k_length, dm, m).
     if should_fallback_to_softmax self q_length m (training self) then
       bnd (softmax_attention self dm k_length q k v msk w) (\<lambda>(context, attn_map, w').
       bnd (finalize_attention_output self context head_mask (Some attn_map)) (\<lambda>res.
       Inr (res, self, w')))
     else if output_attentions then
       Inl (ValueError
         ''PerformerAttention: Can't output attention maps when using FAVOR+ linear attention.'')
     else
       bnd (redraw_features_if_needed qr self w) (\<lambda>(self', w').
       bnd (get_projected_queries_and_keys self' q k) (\<lambda>(q_prime, k_prime).
       bnd (compute_attention_with_projected_queries_and_keys self' q_prime k_prime v msk head_mask)
         (\<lambda>res. Inr (res, self', w')))))"

subsection \<open>The constructor\<close>

text \<open>
  \<^verbatim>\<open>__init__\<close> copies the entries of the configuration into the instance; the
  argument \<open>attrs\<close> is the instance with these entries in place. The constructor
  then resets the counter and the feature matrix, chooses the fallback policy from
  \<^verbatim>\<open>short_sequence_behavior\<close> (a name, a callable, something else, or nothing),
  looks the kernel up and asserts that \<^verbatim>\<open>d_model\<close> is a multiple of
  \<^verbatim>\<open>num_heads\<close>. \<^verbatim>\<open>num_heads\<close> and \<^verbatim>\<open>d_model\<close> are numbers here, so their test
  against \<^verbatim>\<open>None\<close> has no counterpart. A new module is in training mode.
\<close>

datatype behavior =
    Named string
  | Callable "nat \<Rightarrow> int \<Rightarrow> bool \<Rightarrow> bool"
  | Other

definition lookup_behavior :: "string \<Rightarrow> error + (nat \<Rightarrow> int \<Rightarrow> bool \<Rightarrow> bool)" where
  "lookup_behavior name =
     (case SHORT_SEQUENCE_BEHAVIOR_CALLABLES name of
        None \<Rightarrow> Inl (KeyError name)
      | Some f \<Rightarrow> Inr f)"

definition init :: "module \<Rightarrow> behavior option \<Rightarrow> error + module" where
  "init attrs short_sequence_behavior =
     (let self = attrs\<lparr>training := True, calls_since_last_redraw := 0, random_features := None\<rparr> in
      bnd (if short_sequence_behavior = None \<or> short_sequence_behavior = Some (Named [])
           then lookup_behavior
                  (if kernel_type self = ''relu'' then ''never_use_softmax''
                   else ''use_softmax_eval_only'')
           else if kernel_type self = ''relu'' \<and>
                   short_sequence_behavior \<noteq> Some (Named ''never_use_softmax'')
           then Inl (ValueError
                  ''PerformerAttention: short_sequence_behavior cannot be combined with the relu kernel type'')
           else (case short_sequence_behavior of
                   Some (Named name) \<Rightarrow> lookup_behavior name
                 | Some (Callable f) \<Rightarrow> Inr f
                 | _ \<Rightarrow> Inl (ValueError
                     ''PerformerAttention: short_sequence_behavior must be either str or Callable''))) (\<lambda>f.
      case KERNEL_CALLABLES (kernel_type self) of
        None \<Rightarrow> Inl (KeyError (kernel_type self))
      | Some kernel_fn \<Rightarrow>
          if num_heads self = 0 then Inl ZeroDivisionError
          else if d_model self mod num_heads self \<noteq> 0 then Inl AssertionError
          else Inr (self\<lparr>should_fallback_to_softmax := f\<rparr>)))"

subsection \<open>Concrete inputs\<close>

text \<open>
  An instance with \<^verbatim>\<open>d_model = 8\<close>, \<^verbatim>\<open>num_heads = 2\<close>, the relu kernel and
  \<^verbatim>\<open>causal = True\<close>, as constructed with no \<^verbatim>\<open>short_sequence_behavior\<close> and put
  in evaluation mode, before its first forward call. The linear layers are the
  identity; the input projections are switched off.
\<close>

definition identity_linear :: "nat \<Rightarrow> linear" where
  "identity_linear n =
     \<lparr>weight = tab n (\<lambda>i. tab n (\<lambda>j. if i = j then 1 else 0)), bias = replicate n 0\<rparr>"

definition performer_8_2 :: module where
  "performer_8_2 =
     \<lparr>num_heads = 2, d_model = 8, kernel_type = ''relu'', causal = True, casual = None,
      use_orthogonal_features = True, regularize_feature_norms = False,
      feature_redraw_interval = None, redraw_stochastically = False, redraw_verbose = False,
      normalize_output = True, normalization_stabilizer = 1 / 1000000,
      kernel_epsilon = 1 / 1000, attention_dropout = 1 / 10,
      use_qkv_linear_layers = False, training = False,
      should_fallback_to_softmax = never_use_softmax,
      q_lin = identity_linear 8, k_lin = identity_linear 8, v_lin = identity_linear 8,
      out_lin = identity_linear 8,
      calls_since_last_redraw = 0, random_features = None\<rparr>"

text \<open>A feature matrix of 6 rows for heads of dimension 4.\<close>

definition features_6_4 :: mat where
  "features_6_4 =
     [[1, 0, 0, 0], [0, 1, 0, 0], [0, 0, 1, 0], [0, 0, 0, 1], [1, 0, 0, 0], [0, 1, 0, 0]]"

text \<open>
  Random sources and an instance of the library parameter \<open>qr\<close>, for statements
  about one concrete run. The instance returns its argument for both factors; the
  statements that use it do not depend on what a decomposition computes.
\<close>

definition sample_world :: world where
  "sample_world = \<lparr>normals = (\<lambda>i. real (i mod 3) - 1), npos = 0, uniforms = (\<lambda>i. 1 / 2), upos = 0\<rparr>"

definition sample_qr :: "mat \<Rightarrow> mat \<times> mat" where
  "sample_qr A = (A, A)"

text \<open>
  Inputs of one sequence of three positions and width 8: all zero, and zero
  but for the third position; their splits into two heads of dimension 4; the
  prime features of the relu kernel on zero queries and keys (\<^verbatim>\<open>kernel_epsilon\<close>
  everywhere); and the tensor of ones.
\<close>

definition zeros_1_3_8 :: tensor3 where
  "zeros_1_3_8 = [[[0, 0, 0, 0, 0, 0, 0, 0], [0, 0, 0, 0, 0, 0, 0, 0], [0, 0, 0, 0, 0, 0, 0, 0]]]"

definition late_value_1_3_8 :: tensor3 where
  "late_value_1_3_8 = [[[0, 0, 0, 0, 0, 0, 0, 0], [0, 0, 0, 0, 0, 0, 0, 0], [3, 3, 3, 3, 3, 3, 3, 3]]]"

definition ones_1_3_8 :: tensor3 where
  "ones_1_3_8 = [[[1, 1, 1, 1, 1, 1, 1, 1], [1, 1, 1, 1, 1, 1, 1, 1], [1, 1, 1, 1, 1, 1, 1, 1]]]"

definition zero_heads :: tensor4 where
  "zero_heads = [[[[0, 0, 0, 0], [0, 0, 0, 0], [0, 0, 0, 0]], [[0, 0, 0, 0], [0, 0, 0, 0], [0, 0, 0, 0]]]]"

definition late_heads :: tensor4 where
  "late_heads = [[[[0, 0, 0, 0], [0, 0, 0, 0], [3, 3, 3, 3]], [[0, 0, 0, 0], [0, 0, 0, 0], [3, 3, 3, 3]]]]"

definition eps_features :: tensor4 where
  "eps_features = [[[[1 / 1000, 1 / 1000, 1 / 1000, 1 / 1000, 1 / 1000, 1 / 1000], [1 / 1000, 1 / 1000, 1 / 1000, 1 / 1000, 1 / 1000, 1 / 1000], [1 / 1000, 1 / 1000, 1 / 1000, 1 / 1000, 1 / 1000, 1 / 1000]], [[1 / 1000, 1 / 1000, 1 / 1000, 1 / 1000, 1 / 1000, 1 / 1000], [1 / 1000, 1 / 1000, 1 / 1000, 1 / 1000, 1 / 1000, 1 / 1000], [1 / 1000, 1 / 1000, 1 / 1000, 1 / 1000, 1 / 1000, 1 / 1000]]]]"

section \<open>Properties\<close>

subsection \<open>C6: the stabilised normaliser\<close>

theorem stabilize_sign_counterexample:
  "sgn (stabilize 1 (- (1 / 2))) \<noteq> sgn (- (1 / 2) :: real)"
  by (simp add: stabilize_def)

text \<open>
  C6 (as amended). For a positive stabiliser \<open>s\<close> the stabilised entry is never zero.
  An entry \<open>d\<close> with \<open>- s \<le> d \<le> 0\<close> is moved to a value of at least \<open>s\<close>, hence
  positive; every other entry keeps its sign.
\<close>

theorem stabilize_nonzero_and_sign:
  assumes "0 < s"
  shows "stabilize s d \<noteq> 0 \<and>
         (if - s \<le> d \<and> d \<le> 0 then s \<le> stabilize s d
          else sgn (stabilize s d) = sgn d)"
  using assms by (auto simp: stabilize_def sgn_real_def abs_real_def split: if_splits)

theorem stabilize_nonzero_and_sign_witness:
  "(0::real) < 1 \<and> stabilize 1 (- (1 / 2)) = 3 / 2 \<and> 1 \<le> stabilize 1 (- (1 / 2)) \<and>
   stabilize 1 3 = 3 \<and> sgn (stabilize 1 3) = sgn (3::real)"
proof -
  have h: "(0::real) < 1" by simp
  from stabilize_nonzero_and_sign [OF h, of "- (1 / 2)"]
       stabilize_nonzero_and_sign [OF h, of 3]
  show ?thesis by (simp add: stabilize_def)
qed

subsection \<open>The scheduler\<close>

lemma generate_feature_matrix_fields:
  assumes "generate_feature_matrix qr self w = Inr (r, self', w')"
  shows "self' = self \<or> (\<exists>F. self' = self\<lparr>random_features := Some F\<rparr>)"
  using assms
  by (auto simp: generate_feature_matrix_def Let_def bnd_def
           split: if_splits prod.splits sum.splits)

lemma generate_feature_matrix_counter:
  "generate_feature_matrix qr (self\<lparr>calls_since_last_redraw := c\<rparr>) w =
   map_sum id (\<lambda>(r, s, w'). (r, s\<lparr>calls_since_last_redraw := c\<rparr>, w'))
     (generate_feature_matrix qr self w)"
  by (auto simp: generate_feature_matrix_def Let_def bnd_def
           split: if_splits prod.splits sum.splits)

lemma redraw_features_now_counter:
  "redraw_features_now qr (self\<lparr>calls_since_last_redraw := c\<rparr>) w = redraw_features_now qr self w"
  by (auto simp: redraw_features_now_def generate_feature_matrix_counter bnd_def
           split: option.splits sum.splits)

lemma redraw_features_now_counter_driven:
  assumes "redraw_features_now qr s w = Inr (s', w')" "counter_driven k s"
  shows "counter_driven k s' \<and> calls_since_last_redraw s' = 0"
  using assms
  by (auto simp: redraw_features_now_def bnd_def counter_driven_def
       split: option.splits sum.splits dest!: generate_feature_matrix_fields)

lemma redraws_counter_driven:
  "redraws qr j s w = Inr (s', w') \<Longrightarrow> counter_driven k s \<Longrightarrow> calls_since_last_redraw s = 0 \<Longrightarrow>
   counter_driven k s' \<and> calls_since_last_redraw s' = 0"
  by (induction j arbitrary: s' w')
     (auto simp: bnd_def split: sum.splits dest: redraw_features_now_counter_driven)

lemma scheduler_below_interval:
  assumes "counter_driven k s" "c < k"
  shows "redraw_features_if_needed qr (s\<lparr>calls_since_last_redraw := c\<rparr>) w =
         Inr (s\<lparr>calls_since_last_redraw := c + 1\<rparr>, w)"
  using assms by (auto simp: redraw_features_if_needed_def counter_driven_def split: option.splits)

lemma scheduler_at_interval:
  assumes "counter_driven k s" "k \<le> c"
  shows "redraw_features_if_needed qr (s\<lparr>calls_since_last_redraw := c\<rparr>) w =
         redraw_features_now qr s w"
  using assms
  by (auto simp: redraw_features_if_needed_def counter_driven_def redraw_features_now_counter
           split: option.splits)

lemma redraw_features_now_resets:
  "bnd (redraw_features_now qr s w) (\<lambda>(s', w'). Inr (s'\<lparr>calls_since_last_redraw := 0\<rparr>, w')) =
   redraw_features_now qr s w"
  by (cases "generate_feature_matrix qr s w")
     (auto simp: redraw_features_now_def bnd_def split: option.splits)

subsection \<open>C7: the redraw period\<close>

text \<open>
  With \<^verbatim>\<open>feature_redraw_interval = 1\<close> the claim asks for a new matrix at every
  call. The call below finds the counter at 0, below the interval: it increments
  the counter and leaves the matrix and the random sources as they are.
\<close>

theorem redraw_every_k_calls_counterexample:
  "redraw_features_if_needed sample_qr
     (performer_8_2\<lparr>feature_redraw_interval := Some 1, random_features := Some features_6_4\<rparr>)
     sample_world =
   Inr (performer_8_2\<lparr>feature_redraw_interval := Some 1, random_features := Some features_6_4,
          calls_since_last_redraw := 1\<rparr>, sample_world)"
  by (simp add: redraw_features_if_needed_def performer_8_2_def)

text \<open>
  C7 (as amended). With \<^verbatim>\<open>feature_redraw_interval = k\<close> for a positive \<open>k\<close>, no
  stochastic redraw, an existing feature matrix and the counter at zero, \<open>n\<close>
  consecutive calls of the scheduler amount to exactly \<open>n div (k + 1)\<close> calls of
  \<^verbatim>\<open>redraw_features_now\<close>, each of which resets the counter to zero, and leave the
  counter at \<open>n mod (k + 1)\<close>: the redraw happens on every \<open>(k + 1)\<close>-th call, and the
  \<open>k\<close> calls in between change nothing but the counter.
\<close>

theorem scheduler_period:
  assumes "feature_redraw_interval self = Some (int k)" and "0 < k"
    and "\<not> redraw_stochastically self" and "random_features self \<noteq> None"
    and "calls_since_last_redraw self = 0"
  shows "scheduler_calls qr n self w =
         bnd (redraws qr (n div (k + 1)) self w)
           (\<lambda>(self', w'). Inr (self'\<lparr>calls_since_last_redraw := int (n mod (k + 1))\<rparr>, w'))"
proof (induction n)
  case 0
  show ?case using assms(5) by (simp add: bnd_def)
next
  case (Suc n)
  have inv: "counter_driven (int k) self" using assms by (simp add: counter_driven_def)
  let ?j = "n div (k + 1)" and ?r = "n mod (k + 1)"
  show ?case
  proof (cases "redraws qr ?j self w")
    case (Inl e)
    have "redraws qr (Suc n div (k + 1)) self w = Inl e"
    proof (cases "Suc n mod (k + 1) = 0")
      case True
      then have "Suc n div (k + 1) = Suc ?j"
        by (metis Suc_eq_plus1 div_Suc mod_Suc add.commute neq0_conv)
      then show ?thesis using Inl by (simp add: bnd_def)
    next
      case False
      then have "Suc n div (k + 1) = ?j"
        by (metis Suc_eq_plus1 div_Suc add.commute)
      then show ?thesis using Inl by simp
    qed
    then show ?thesis using Suc Inl by (simp add: bnd_def)
  next
    case (Inr p)
    obtain s' w' where p: "p = (s', w')" by (cases p)
    have inv': "counter_driven (int k) s'" and c0: "calls_since_last_redraw s' = 0"
      using redraws_counter_driven [OF Inr [unfolded p] inv assms(5)] by simp_all
    have lhs: "scheduler_calls qr (Suc n) self w =
          redraw_features_if_needed qr (s'\<lparr>calls_since_last_redraw := int ?r\<rparr>) w'"
      using Suc Inr p by (simp add: bnd_def)
    show ?thesis
    proof (cases "?r < k")
      case True
      then have d: "Suc n div (k + 1) = ?j" and m: "Suc n mod (k + 1) = ?r + 1"
        by (simp_all add: div_Suc mod_Suc)
      show ?thesis
        using lhs scheduler_below_interval [OF inv', of "int ?r" qr w'] True Inr p d m
        by (simp add: bnd_def add.commute)
    next
      case False
      have "?r < k + 1" by (rule mod_less_divisor) simp
      with False have r: "?r = k" by linarith
      then have d: "Suc n div (k + 1) = Suc ?j" and m: "Suc n mod (k + 1) = 0"
        by (simp_all add: div_Suc mod_Suc)
      have "redraw_features_now qr s' w' =
            bnd (redraw_features_now qr s' w')
              (\<lambda>(self', w'). Inr (self'\<lparr>calls_since_last_redraw := 0\<rparr>, w'))"
        using redraw_features_now_counter_driven [OF _ inv', of qr w']
        by (cases "redraw_features_now qr s' w'") (auto simp: bnd_def)
      then show ?thesis
        using lhs scheduler_at_interval [OF inv', of "int ?r" qr w'] r Inr p d m
        by (simp add: bnd_def)
    qed
  qed
qed


theorem scheduler_period_witness:
  "feature_redraw_interval (performer_8_2\<lparr>feature_redraw_interval := Some 2, random_features := Some features_6_4\<rparr>) = Some (int 2) \<and>
   (0::nat) < 2 \<and>
   \<not> redraw_stochastically (performer_8_2\<lparr>feature_redraw_interval := Some 2, random_features := Some features_6_4\<rparr>) \<and>
   random_features (performer_8_2\<lparr>feature_redraw_interval := Some 2, random_features := Some features_6_4\<rparr>) \<noteq> None \<and>
   calls_since_last_redraw (performer_8_2\<lparr>feature_redraw_interval := Some 2, random_features := Some features_6_4\<rparr>) = 0 \<and>
   scheduler_calls sample_qr 2
     (performer_8_2\<lparr>feature_redraw_interval := Some 2, random_features := Some features_6_4\<rparr>)
     sample_world =
   Inr (performer_8_2\<lparr>feature_redraw_interval := Some 2, random_features := Some features_6_4,
          calls_since_last_redraw := 2\<rparr>, sample_world) \<and>
   scheduler_calls sample_qr 3
     (performer_8_2\<lparr>feature_redraw_interval := Some 2, random_features := Some features_6_4\<rparr>)
     sample_world =
   redraw_features_now sample_qr
     (performer_8_2\<lparr>feature_redraw_interval := Some 2, random_features := Some features_6_4\<rparr>)
     sample_world"
proof -
  let ?s = "performer_8_2\<lparr>feature_redraw_interval := Some 2, random_features := Some features_6_4\<rparr>"
  have h: "feature_redraw_interval ?s = Some (int 2)" "(0::nat) < 2"
    "\<not> redraw_stochastically ?s" "random_features ?s \<noteq> None" "calls_since_last_redraw ?s = 0"
    by (simp_all add: performer_8_2_def)
  have two: "scheduler_calls sample_qr 2 ?s sample_world =
      Inr (?s\<lparr>calls_since_last_redraw := 2\<rparr>, sample_world)"
    using scheduler_period [OF h, of sample_qr 2 sample_world] by (simp add: bnd_def)
  have r1: "redraws sample_qr (Suc 0) ?s sample_world = redraw_features_now sample_qr ?s sample_world"
    by (simp add: bnd_def)
  have three: "scheduler_calls sample_qr 3 ?s sample_world = redraw_features_now sample_qr ?s sample_world"
    using scheduler_period [OF h, of sample_qr 3 sample_world]
    by (simp add: redraw_features_now_resets del: redraws.simps add: r1)
  show ?thesis using h two three by simp
qed


subsection \<open>Tensors given by their entries\<close>

text \<open>
  A tensor of a known shape is the table of its entries; the primitives are
  computed on tables, where shapes and index ranges are explicit.
\<close>

lemma length_tab [simp]: "length (tab n f) = n"
  by (simp add: tab_def)

lemma nth_tab [simp]: "i < n \<Longrightarrow> tab n f ! i = f i"
  by (simp add: tab_def)

lemma tab_cong [cong]: "n = m \<Longrightarrow> (\<And>i. i < m \<Longrightarrow> f i = g i) \<Longrightarrow> tab n f = tab m g"
  by (simp add: tab_def)

lemma map_tab: "map g (tab n f) = tab n (\<lambda>i. g (f i))"
  by (simp add: tab_def)

lemma map2_tab: "map2 h (tab n f) (tab n g) = tab n (\<lambda>i. h (f i) (g i))"
  by (simp add: tab_def zip_map_map zip_same_conv_map)

lemma tab_Suc: "tab (Suc n) f = tab n f @ [f n]"
  by (simp add: tab_def)

lemma tab_0 [simp]: "tab 0 f = []"
  by (simp add: tab_def)

lemma tab_eq_Nil [simp]: "tab n f = [] \<longleftrightarrow> n = 0"
  by (simp add: tab_def)

lemma tab_Cons: "0 < n \<Longrightarrow> tab n f = f 0 # tab (n - 1) (\<lambda>i. f (Suc i))"
  by (cases n) (simp_all add: tab_def upt_conv_Cons map_Suc_upt [symmetric] del: upt_Suc)

lemma ncols_tab: "0 < n \<Longrightarrow> ncols (tab n f) = length (f 0)"
  by (simp add: tab_Cons)

lemma hd_tab: "0 < n \<Longrightarrow> hd (tab n f) = f 0"
  by (simp add: tab_Cons)

lemma ncols_hd: "xs \<noteq> [] \<Longrightarrow> ncols xs = length (hd xs)"
  by (cases xs) simp_all

lemma hd_concat: "xs \<noteq> [] \<Longrightarrow> hd xs \<noteq> [] \<Longrightarrow> hd (concat xs) = hd (hd xs)"
  by (cases xs) simp_all

lemma concat_neq_Nil: "xs \<noteq> [] \<Longrightarrow> hd xs \<noteq> [] \<Longrightarrow> concat xs \<noteq> []"
  by (cases xs) simp_all

lemma dim1_tab: "0 < a \<Longrightarrow> dim1 (tab a (\<lambda>i. tab b (g i))) = b"
  by (simp add: dim1_def ncols_tab)

lemma ncols_concat: "xs \<noteq> [] \<Longrightarrow> hd xs \<noteq> [] \<Longrightarrow> ncols (concat xs) = ncols (hd xs)"
  by (cases xs; cases "hd xs") simp_all

lemma dim2_tab: "0 < a \<Longrightarrow> 0 < b \<Longrightarrow> dim2 (tab a (\<lambda>i. tab b (\<lambda>j. tab c (g i j)))) = c"
  unfolding dim2_def by (subst ncols_concat) (simp_all add: hd_tab ncols_tab)

lemma dim3_tab:
  assumes "0 < a" "0 < b" "0 < c"
  shows "dim3 (tab a (\<lambda>i. tab b (\<lambda>j. tab c (\<lambda>k. tab d (g i j k))))) = d"
proof -
  let ?x = "tab a (\<lambda>i. tab b (\<lambda>j. tab c (\<lambda>k. tab d (g i j k))))"
  have 1: "?x \<noteq> []" "hd ?x \<noteq> []" using assms by (simp_all add: hd_tab)
  have 2: "concat ?x \<noteq> []" using 1 by (rule concat_neq_Nil)
  have 3: "hd (concat ?x) = tab c (\<lambda>k. tab d (g 0 0 k))"
    using assms by (simp add: hd_concat [OF 1] hd_tab)
  have "ncols (concat (concat ?x)) = ncols (hd (concat ?x))"
    using 2 3 assms by (intro ncols_concat) simp_all
  then show ?thesis using assms by (simp add: dim3_def 3 ncols_tab)
qed

lemma bget_tab: "i < n \<Longrightarrow> bget (tab n f) i = f i"
  by (auto simp: bget_def)

lemma sum_list_tab: "sum_list (tab n f) = (\<Sum>i<n. f i)"
  by (simp add: tab_def interv_sum_list_conv_sum_set_nat atLeast0LessThan)

lemma is_mat_tab: "is_mat a b x \<Longrightarrow> x = tab a (\<lambda>i. tab b (\<lambda>j. x ! i ! j))"
  by (auto simp: is_mat_def list_all_length intro!: nth_equalityI)

lemma is_tensor3_tab:
  "is_tensor3 a b c x \<Longrightarrow> x = tab a (\<lambda>i. tab b (\<lambda>j. tab c (\<lambda>k. x ! i ! j ! k)))"
  by (auto simp: is_tensor3_def is_mat_def list_all_length intro!: nth_equalityI)

lemma is_tensor4_tab:
  "is_tensor4 a b c d x \<Longrightarrow>
   x = tab a (\<lambda>i. tab b (\<lambda>j. tab c (\<lambda>k. tab d (\<lambda>l. x ! i ! j ! k ! l))))"
  by (auto simp: is_tensor4_def is_tensor3_def is_mat_def list_all_length intro!: nth_equalityI)

lemma tab_1: "tab (Suc 0) f = [f 0]"
  by (simp add: tab_def)

lemma bget_single [simp]: "bget [e] l = e"
  by (simp add: bget_def)

lemma bc_same [simp]: "bc_ok a a" "bc_dim a a = a"
  by (simp_all add: bc_ok_def bc_dim_def)

lemma bget_tab1 [simp]: "bget (tab (Suc 0) f) l = f 0"
  by (simp add: bget_def)

lemma getitem_tab: "i < n \<Longrightarrow> getitem (tab n f) i = Inr (f i)"
  by (simp add: getitem_def)

lemmas dims_tab = dim1_tab dim2_tab dim3_tab bget_tab

lemma matmul4_tab:
  assumes "0 < a" "0 < b" "0 < n" "0 < m"
  shows "matmul4 (tab a (\<lambda>i. tab b (\<lambda>j. tab n (\<lambda>x. tab m (f i j x)))))
                 (tab a (\<lambda>i. tab b (\<lambda>j. tab m (\<lambda>x. tab p (g i j x))))) =
         Inr (tab a (\<lambda>i. tab b (\<lambda>j. tab n (\<lambda>x. tab p (\<lambda>y. \<Sum>k<m. f i j x k * g i j k y)))))"
  using assms by (simp add: matmul4_def dims_tab)

lemma transpose_last_tab:
  assumes "0 < c"
  shows "transpose_last (tab a (\<lambda>i. tab b (\<lambda>j. tab c (\<lambda>x. tab d (f i j x))))) =
         tab a (\<lambda>i. tab b (\<lambda>j. tab d (\<lambda>y. tab c (\<lambda>x. f i j x y))))"
  using assms by (simp add: transpose_last_def t_mat_def map_tab ncols_tab)

lemma sum_dim_m2_tab:
  assumes "0 < c"
  shows "sum_dim_m2 (tab a (\<lambda>i. tab b (\<lambda>j. tab c (\<lambda>x. tab d (f i j x))))) =
         tab a (\<lambda>i. tab b (\<lambda>j. tab d (\<lambda>m. \<Sum>l<c. f i j l m)))"
  using assms by (simp add: sum_dim_m2_def map_tab ncols_tab)

lemma unsqueeze_last_tab:
  "unsqueeze_last (tab a (\<lambda>i. tab b (\<lambda>j. tab c (f i j)))) =
   tab a (\<lambda>i. tab b (\<lambda>j. tab c (\<lambda>k. tab (Suc 0) (\<lambda>l. f i j k))))"
  by (simp add: unsqueeze_last_def map_tab tab_1)

lemma map4_tab:
  "map (map (map (map h))) (tab a (\<lambda>i. tab b (\<lambda>j. tab c (\<lambda>k. tab d (f i j k))))) =
   tab a (\<lambda>i. tab b (\<lambda>j. tab c (\<lambda>k. tab d (\<lambda>l. h (f i j k l)))))"
  by (simp add: map_tab)

lemma inplace4_tab:
  assumes "0 < a" "0 < b" "0 < c"
  shows "inplace4 h (tab a (\<lambda>i. tab b (\<lambda>j. tab c (\<lambda>k. tab d (f i j k)))))
                    (tab a (\<lambda>i. tab b (\<lambda>j. tab c (\<lambda>k. tab (Suc 0) (g i j k))))) =
         Inr (tab a (\<lambda>i. tab b (\<lambda>j. tab c (\<lambda>k. tab d (\<lambda>l. h (f i j k l) (g i j k 0))))))"
  using assms by (simp add: inplace4_def dims_tab)

lemma reshape_lbhx_tab:
  assumes "0 < a" "0 < b"
  shows "reshape_lbhx (tab a (\<lambda>i. tab b (\<lambda>j. tab c (\<lambda>k. tab d (f i j k))))) =
         tab c (\<lambda>k. tab a (\<lambda>i. tab b (\<lambda>j. tab d (f i j k))))"
  using assms by (simp add: reshape_lbhx_def dims_tab map_tab)

lemma dereshape_bhlx_tab:
  assumes "0 < c" "0 < a"
  shows "dereshape_bhlx (tab c (\<lambda>k. tab a (\<lambda>i. tab b (\<lambda>j. tab d (f k i j))))) =
         tab a (\<lambda>i. tab b (\<lambda>j. tab c (\<lambda>k. tab d (f k i j))))"
  using assms by (simp add: dereshape_bhlx_def dims_tab)

lemma einsum_lbh_bhl_tab:
  assumes "0 < c" "0 < a"
  shows "einsum_lbh_bhl (tab c (\<lambda>k. tab a (\<lambda>i. tab b (f k i)))) =
         tab a (\<lambda>i. tab b (\<lambda>j. tab c (\<lambda>k. f k i j)))"
  using assms by (simp add: einsum_lbh_bhl_def dims_tab)

lemma einsum_outer_tab:
  assumes "0 < a" "0 < b"
  shows "einsum_ijk_ijl_ijkl (tab a (\<lambda>i. tab b (\<lambda>j. tab m (f i j))))
                             (tab a (\<lambda>i. tab b (\<lambda>j. tab d (g i j)))) =
         Inr (tab a (\<lambda>i. tab b (\<lambda>j. tab m (\<lambda>k. tab d (\<lambda>l. f i j k * g i j l)))))"
  using assms by (simp add: einsum_ijk_ijl_ijkl_def dims_tab)

lemma einsum_ijkl_ijk_ijl_tab:
  assumes "0 < a" "0 < b" "0 < m"
  shows "einsum_ijkl_ijk_ijl (tab a (\<lambda>i. tab b (\<lambda>j. tab m (\<lambda>k. tab d (f i j k)))))
                             (tab a (\<lambda>i. tab b (\<lambda>j. tab m (g i j)))) =
         Inr (tab a (\<lambda>i. tab b (\<lambda>j. tab d (\<lambda>l. \<Sum>k<m. f i j k l * g i j k))))"
  using assms by (simp add: einsum_ijkl_ijk_ijl_def dims_tab)

lemma add4_tab:
  "add4 (tab a (\<lambda>i. tab b (\<lambda>j. tab c (\<lambda>k. tab d (f i j k)))))
        (tab a (\<lambda>i. tab b (\<lambda>j. tab c (\<lambda>k. tab d (g i j k))))) =
   tab a (\<lambda>i. tab b (\<lambda>j. tab c (\<lambda>k. tab d (\<lambda>l. f i j k l + g i j k l))))"
  by (simp add: add4_def map2_tab)

lemma zeros_like4_tab:
  "zeros_like4 (tab a (\<lambda>i. tab b (\<lambda>j. tab c (\<lambda>k. tab d (f i j k))))) =
   tab a (\<lambda>i. tab b (\<lambda>j. tab c (\<lambda>k. tab d (\<lambda>l. 0))))"
  by (simp add: zeros_like4_def map_tab)

lemma zeros_like3_tab:
  "zeros_like3 (tab a (\<lambda>i. tab b (\<lambda>j. tab c (f i j)))) =
   tab a (\<lambda>i. tab b (\<lambda>j. tab c (\<lambda>k. 0)))"
  by (simp add: zeros_like3_def map_tab)

lemma bc3_tab:
  assumes "0 < a" "0 < b"
  shows "bc3 h (tab a (\<lambda>i. tab b (\<lambda>j. tab c (f i j)))) (tab a (\<lambda>i. tab b (\<lambda>j. tab c (g i j)))) =
         Inr (tab a (\<lambda>i. tab b (\<lambda>j. tab c (\<lambda>k. h (f i j k) (g i j k)))))"
  using assms by (simp add: bc3_def dims_tab)

lemma sum_dim2_tab:
  "sum_dim2 (tab a (\<lambda>i. tab b (\<lambda>j. tab c (f i j)))) = tab a (\<lambda>i. tab b (\<lambda>j. \<Sum>k<c. f i j k))"
  by (simp add: sum_dim2_def map_tab sum_list_tab)

lemma numerator_loop_tab:
  assumes "0 < L" "0 < bs" "0 < H" "0 < M" "n \<le> L"
  shows "numerator_loop
           (tab L (\<lambda>t. tab bs (\<lambda>b. tab H (\<lambda>h. tab M (fq b h t)))))
           (tab L (\<lambda>t. tab bs (\<lambda>b. tab H (\<lambda>h. tab M (fk b h t)))))
           (tab L (\<lambda>t. tab bs (\<lambda>b. tab H (\<lambda>h. tab D (fv b h t))))) n =
         Inr (tab bs (\<lambda>b. tab H (\<lambda>h. tab M (\<lambda>m. tab D (\<lambda>d. \<Sum>s<n. fk b h s m * fv b h s d)))),
              tab n (\<lambda>t. tab bs (\<lambda>b. tab H (\<lambda>h. tab D (\<lambda>d.
                \<Sum>m<M. (\<Sum>s<Suc t. fk b h s m * fv b h s d) * fq b h t m)))))"
  using assms(5)
proof (induction n)
  case 0
  show ?case using assms(1-4)
    by (simp add: getitem_tab bnd_def einsum_outer_tab zeros_like4_tab)
next
  case (Suc n)
  then have n: "n < L" by simp
  show ?case using assms(1-4) n Suc.IH
    by (simp add: bnd_def numerator_step_def getitem_tab einsum_outer_tab add4_tab
          einsum_ijkl_ijk_ijl_tab tab_Suc [of n])
qed

lemma denominator_loop_tab:
  assumes "0 < L" "0 < bs" "0 < H" "n \<le> L"
  shows "denominator_loop
           (tab L (\<lambda>t. tab bs (\<lambda>b. tab H (\<lambda>h. tab M (fq b h t)))))
           (tab L (\<lambda>t. tab bs (\<lambda>b. tab H (\<lambda>h. tab M (fk b h t))))) n =
         Inr (tab bs (\<lambda>b. tab H (\<lambda>h. tab M (\<lambda>m. \<Sum>s<n. fk b h s m))),
              tab n (\<lambda>t. tab bs (\<lambda>b. tab H (\<lambda>h.
                \<Sum>m<M. fq b h t m * (\<Sum>s<Suc t. fk b h s m)))))"
  using assms(4)
proof (induction n)
  case 0
  show ?case using assms(1-3)
    by (simp add: getitem_tab bnd_def zeros_like3_tab)
next
  case (Suc n)
  then have n: "n < L" by simp
  show ?case using assms(1-3) n Suc.IH
    by (simp add: bnd_def denominator_step_def getitem_tab bc3_tab sum_dim2_tab tab_Suc [of n])
qed

lemma agg_swap:
  fixes a :: "nat \<Rightarrow> real"
  shows "(\<Sum>m<M. a m * (\<Sum>s<L. k s m * v s)) = (\<Sum>s<L. (\<Sum>m<M. a m * k s m) * v s)"
proof -
  have "(\<Sum>m<M. a m * (\<Sum>s<L. k s m * v s)) = (\<Sum>m<M. \<Sum>s<L. a m * k s m * v s)"
    by (simp add: sum_distrib_left mult.assoc)
  also have "\<dots> = (\<Sum>s<L. \<Sum>m<M. a m * k s m * v s)"
    by (rule sum.swap)
  finally show ?thesis by (simp add: sum_distrib_right)
qed

lemma causal_mask_sum:
  fixes A :: "nat \<Rightarrow> real"
  assumes "t < L"
  shows "(\<Sum>s<L. (if t < s then 0 else A s)) = (\<Sum>s<Suc t. A s)"
proof -
  have "(\<Sum>s<Suc t. A s) = (\<Sum>s<Suc t. (if t < s then 0 else A s))"
    by (rule sum.cong) auto
  also have "\<dots> = (\<Sum>s<L. (if t < s then 0 else A s))"
    using assms by (intro sum.mono_neutral_left) auto
  finally show ?thesis by simp
qed

lemma attention_output_tab:
  assumes "0 < bs" "0 < H" "0 < L" "0 < M" and c: "casual self = Some c"
  shows "attention_output self
           (tab bs (\<lambda>b. tab H (\<lambda>h. tab L (\<lambda>t. tab M (fq b h t)))))
           (tab bs (\<lambda>b. tab H (\<lambda>h. tab L (\<lambda>t. tab M (fk b h t)))))
           (tab bs (\<lambda>b. tab H (\<lambda>h. tab L (\<lambda>t. tab D (fv b h t))))) None =
         Inr (tab bs (\<lambda>b. tab H (\<lambda>h. tab L (\<lambda>t. tab D (\<lambda>d.
           if normalize_output self
           then (if c then \<Sum>m<M. (\<Sum>s<Suc t. fk b h s m * fv b h s d) * fq b h t m
                 else \<Sum>m<M. fq b h t m * (\<Sum>s<L. fk b h s m * fv b h s d)) /
                stabilize (normalization_stabilizer self)
                  (if c then \<Sum>m<M. fq b h t m * (\<Sum>s<Suc t. fk b h s m)
                   else \<Sum>m<M. fq b h t m * (\<Sum>s<L. fk b h s m))
           else (if c then \<Sum>m<M. (\<Sum>s<Suc t. fk b h s m * fv b h s d) * fq b h t m
                 else \<Sum>m<M. fq b h t m * (\<Sum>s<L. fk b h s m * fv b h s d)))))))"
proof (cases c)
  case True
  show ?thesis using assms(1-4) c True
    by (simp add: attention_output_def bnd_def Let_def CausalNumerator_forward_def
          CausalDenominator_forward_def reshape_lbhx_tab dereshape_bhlx_tab
          numerator_loop_tab denominator_loop_tab einsum_lbh_bhl_tab unsqueeze_last_tab
          map4_tab inplace4_tab)
next
  case False
  show ?thesis using assms(1-4) c False
    by (simp add: attention_output_def bnd_def Let_def normalizer_def transpose_last_tab
          matmul4_tab sum_dim_m2_tab unsqueeze_last_tab map4_tab inplace4_tab)
qed

lemma sum_lessThan_cong:
  "M = N \<Longrightarrow> (\<And>x. x < N \<Longrightarrow> f x = g x) \<Longrightarrow> sum f {..<M} = sum g {..<N}"
  by simp

lemma kernel_matrix_tab:
  assumes "0 < bs" "0 < H" "0 < L"
  shows "kernel_matrix c
           (tab bs (\<lambda>b. tab H (\<lambda>h. tab L (\<lambda>t. tab M (fq b h t)))))
           (tab bs (\<lambda>b. tab H (\<lambda>h. tab L (\<lambda>t. tab M (fk b h t))))) =
         tab bs (\<lambda>b. tab H (\<lambda>h. tab L (\<lambda>t. tab L (\<lambda>s.
           if c \<and> t < s then 0 else \<Sum>m<M. fq b h t m * fk b h s m))))"
  using assms by (simp add: kernel_matrix_def dims_tab cong: if_cong sum_lessThan_cong)

lemma normalize_rows_tab:
  "normalize_rows stab (tab bs (\<lambda>b. tab H (\<lambda>h. tab L (\<lambda>t. tab L' (A b h t))))) =
   tab bs (\<lambda>b. tab H (\<lambda>h. tab L (\<lambda>t. tab L' (\<lambda>s.
     A b h t s / stabilize stab (\<Sum>s<L'. A b h t s)))))"
  by (simp add: normalize_rows_def map_tab sum_list_tab)

lemma brute_force_attention_tab:
  assumes "0 < bs" "0 < H" "0 < L"
  shows "brute_force_attention c nrm stab
           (tab bs (\<lambda>b. tab H (\<lambda>h. tab L (\<lambda>t. tab M (fq b h t)))))
           (tab bs (\<lambda>b. tab H (\<lambda>h. tab L (\<lambda>t. tab M (fk b h t)))))
           (tab bs (\<lambda>b. tab H (\<lambda>h. tab L (\<lambda>t. tab D (fv b h t))))) =
         tab bs (\<lambda>b. tab H (\<lambda>h. tab L (\<lambda>t. tab D (\<lambda>d.
           if nrm
           then (\<Sum>s<L. (if c \<and> t < s then 0 else \<Sum>m<M. fq b h t m * fk b h s m) * fv b h s d) /
                stabilize stab (\<Sum>s<L. if c \<and> t < s then 0 else \<Sum>m<M. fq b h t m * fk b h s m)
           else (\<Sum>s<L. (if c \<and> t < s then 0 else \<Sum>m<M. fq b h t m * fk b h s m) * fv b h s d)))))"
  using assms
  by (simp add: brute_force_attention_def Let_def kernel_matrix_tab normalize_rows_tab dims_tab
        sum_divide_distrib cong: if_cong sum_lessThan_cong)

lemma ref_num:
  fixes a :: "nat \<Rightarrow> real"
  assumes "t < L"
  shows "(\<Sum>s<L. (if c \<and> t < s then 0 else \<Sum>m<M. a m * k s m) * v s) =
         (if c then \<Sum>m<M. (\<Sum>s<Suc t. k s m * v s) * a m
          else \<Sum>m<M. a m * (\<Sum>s<L. k s m * v s))"
proof (cases c)
  case True
  have "(\<Sum>s<L. (if t < s then 0 else \<Sum>m<M. a m * k s m) * v s) =
        (\<Sum>s<L. (if t < s then 0 else (\<Sum>m<M. a m * k s m) * v s))"
    by (rule sum.cong) auto
  also have "\<dots> = (\<Sum>s<Suc t. (\<Sum>m<M. a m * k s m) * v s)"
    using assms by (rule causal_mask_sum)
  also have "\<dots> = (\<Sum>m<M. a m * (\<Sum>s<Suc t. k s m * v s))"
    by (rule agg_swap [symmetric])
  finally show ?thesis using True by (simp add: mult.commute)
next
  case False
  then show ?thesis by (simp add: agg_swap)
qed

lemma ref_den:
  fixes a :: "nat \<Rightarrow> real"
  assumes "t < L"
  shows "(\<Sum>s<L. (if c \<and> t < s then 0 else \<Sum>m<M. a m * k s m)) =
         (if c then \<Sum>m<M. a m * (\<Sum>s<Suc t. k s m) else \<Sum>m<M. a m * (\<Sum>s<L. k s m))"
  using ref_num [OF assms, where v = "\<lambda>_. 1" and c = c and M = M and a = a and k = k]
  by (simp add: mult.commute del: sum.lessThan_Suc)


subsection \<open>C2: linear attention against the brute-force reference\<close>

text \<open>
  C2. For tensors \<open>q'\<close>, \<open>k'\<close> of shape \<open>(bs, H, L, M)\<close> and \<open>v\<close> of shape
  \<open>(bs, H, L, D)\<close> with positive \<open>bs\<close>, \<open>H\<close>, \<open>L\<close>, \<open>M\<close> and no padding mask, the
  output of the aggregation (the non-causal product \<open>q' (k'\<^sup>T v)\<close>, or the causal
  recurrence when the flag the code reads is set), followed by the configured
  normalisation, is the output of the brute-force reference that builds the
  (causally masked) \<open>L \<times> L\<close> kernel matrix and normalises its rows. Entries are
  exact reals, so the two agree exactly.
\<close>

theorem attention_matches_brute_force:
  assumes "is_tensor4 bs H L M q_prime" "is_tensor4 bs H L M k_prime" "is_tensor4 bs H L D v"
    and "0 < bs" "0 < H" "0 < L" "0 < M" and "casual self = Some c"
  shows "attention_output self q_prime k_prime v None =
         Inr (brute_force_attention c (normalize_output self) (normalization_stabilizer self)
                q_prime k_prime v)"
proof -
  note q = is_tensor4_tab [OF assms(1)] and k = is_tensor4_tab [OF assms(2)]
    and v = is_tensor4_tab [OF assms(3)]
  show ?thesis
    apply (subst q, subst k, subst v)
    apply (subst (2) q, subst (2) k, subst (2) v)
    using assms(4-8)
    by (simp add: attention_output_tab brute_force_attention_tab ref_num ref_den cong: if_cong)
qed

theorem attention_matches_brute_force_witness:
  "is_tensor4 1 1 2 2 [[[[1, 2], [3, 4 :: real]]]] \<and> is_tensor4 1 1 2 2 [[[[1, 1], [1, 2 :: real]]]] \<and>
   is_tensor4 1 1 2 1 [[[[2], [1 :: real]]]] \<and>
   casual (performer_8_2\<lparr>casual := Some True\<rparr>) = Some True \<and>
   attention_output (performer_8_2\<lparr>casual := Some True\<rparr>)
     [[[[1, 2], [3, 4]]]] [[[[1, 1], [1, 2]]]] [[[[2], [1]]]] None = Inr [[[[2], [25 / 18]]]] \<and>
   casual (performer_8_2\<lparr>casual := Some False\<rparr>) = Some False \<and>
   attention_output (performer_8_2\<lparr>casual := Some False\<rparr>)
     [[[[1, 2], [3, 4]]]] [[[[1, 1], [1, 2]]]] [[[[2], [1]]]] None = Inr [[[[11 / 8], [25 / 18]]]]"
proof -
  have s: "is_tensor4 1 1 2 2 [[[[1, 2], [3, 4 :: real]]]]" "is_tensor4 1 1 2 2 [[[[1, 1], [1, 2 :: real]]]]"
    "is_tensor4 1 1 2 1 [[[[2], [1 :: real]]]]"
    by (simp_all add: is_tensor4_def is_tensor3_def is_mat_def)
  have p: "(0::nat) < 1" "(0::nat) < 2" by simp_all
  have c: "casual (performer_8_2\<lparr>casual := Some True\<rparr>) = Some True"
    "casual (performer_8_2\<lparr>casual := Some False\<rparr>) = Some False" by simp_all
  have ev: "normalize_output (performer_8_2\<lparr>casual := x\<rparr>)"
    "normalization_stabilizer (performer_8_2\<lparr>casual := x\<rparr>) = 1 / 1000000" for x
    by (simp_all add: performer_8_2_def)
  have b1: "brute_force_attention True True (1 / 1000000)
       [[[[1, 2], [3, 4]]]] [[[[1, 1], [1, 2]]]] [[[[2], [1]]]] = [[[[2], [25 / 18]]]]"
    by (simp add: brute_force_attention_def kernel_matrix_def normalize_rows_def Let_def
          tab_def dim1_def dim2_def dim3_def stabilize_def lessThan_Suc eval_nat_numeral)
  have b2: "brute_force_attention False True (1 / 1000000)
       [[[[1, 2], [3, 4]]]] [[[[1, 1], [1, 2]]]] [[[[2], [1]]]] = [[[[11 / 8], [25 / 18]]]]"
    by (simp add: brute_force_attention_def kernel_matrix_def normalize_rows_def Let_def
          tab_def dim1_def dim2_def dim3_def stabilize_def lessThan_Suc eval_nat_numeral)
  show ?thesis
    using attention_matches_brute_force [OF s p(1) p(1) p(2) p(2) c(1)]
          attention_matches_brute_force [OF s p(1) p(1) p(2) p(2) c(2)] s c
    by (simp only: ev b1 b2 simp_thms)
qed


subsection \<open>Evaluation on concrete tensors\<close>

text \<open>The unfolding rules that evaluate the primitives on explicit lists.\<close>

lemmas eval_rules = tab_def bnd_def getitem_def einsum_ijk_ijl_ijkl_def einsum_ijkl_ijk_ijl_def
  einsum_ijkl_ijl_ijk_def add4_def sub4_def zeros_like4_def bc_ok_def bc_dim_def bget_def
  dim1_def dim2_def dim3_def CausalNumerator_forward_def CausalNumerator_backward_def
  numerator_step_def numerator_backward_step_def lessThan_Suc

lemma numerator_loss_along_key: "numerator_loss [[[[1, 1, 1]]]] [[[[x, 1, 1]]]] [[[[2, 0, 0]]]] [[[[1, 0, 0]]]] = 2 * x + 4"
  by (simp add: numerator_loss_def inner4_def eval_rules eval_nat_numeral)


subsection \<open>C1: the backward pass of the causal numerator\<close>

text \<open>
  C1. The claim asks for the gradient \<open>G \<cdot> v\<^sub>t\<close> with respect to \<open>k'\<^sub>t\<close>, equal to
  the derivative of the forward recurrence. For \<open>L = 1\<close>, \<open>M = D = 3\<close>,
  \<open>q' = k' = (1, 1, 1)\<close>, \<open>v = (2, 0, 0)\<close> and output gradient \<open>g = (1, 0, 0)\<close>:
  the forward pass returns \<open>(6, 0, 0)\<close> and saves its sums; the backward pass
  returns the key gradient \<open>(1, 1, 1)\<close>, whereas \<open>G \<cdot> v\<^sub>t\<close> is \<open>(2, 2, 2)\<close> and the
  derivative of \<open>\<langle>g, forward\<rangle>\<close> along the first key entry is 2. (The query and value
  gradients \<open>(2, 2, 2)\<close> and \<open>(3, 0, 0)\<close> are the right ones.) With \<open>M = 2\<close> and
  \<open>D = 3\<close> the backward pass raises: it contracts the \<open>D\<close> axis of the accumulator
  with the \<open>M\<close> axis of \<open>k'\<^sub>t\<close>.
\<close>

theorem causal_numerator_backward_key_gradient:
  "CausalNumerator_forward [[[[1, 1, 1]]]] [[[[1, 1, 1]]]] [[[[2, 0, 0]]]] =
     Inr ([[[[6, 0, 0]]]], [[[[2, 0, 0], [2, 0, 0], [2, 0, 0]]]]) \<and>
   CausalNumerator_backward [[[[1, 1, 1]]]] [[[[1, 1, 1]]]] [[[[2, 0, 0]]]]
       [[[[2, 0, 0], [2, 0, 0], [2, 0, 0]]]] [[[[1, 0, 0]]]] =
     Inr ([[[[2, 2, 2]]]], [[[[1, 1, 1]]]], [[[[3, 0, 0]]]]) \<and>
   bnd (einsum_ijk_ijl_ijkl [[[1, 1, 1]]] [[[1, 0, 0]]])
       (\<lambda>G. einsum_ijkl_ijl_ijk G [[[2, 0, 0]]]) = Inr [[[2, 2, 2]]] \<and>
   ((\<lambda>x. numerator_loss [[[[1, 1, 1]]]] [[[[x, 1, 1]]]] [[[[2, 0, 0]]]] [[[[1, 0, 0]]]])
      has_real_derivative 2) (at 1) \<and>
   CausalNumerator_backward [[[[1, 2]]]] [[[[1, 1]]]] [[[[2, 0, 5]]]]
       [[[[2, 0, 5], [2, 0, 5]]]] [[[[1, 0, 0]]]] =
     Inl (RuntimeError ''einsum(): operands do not broadcast'')"
proof -
  have 5: "CausalNumerator_backward [[[[1, 2]]]] [[[[1, 1]]]] [[[[2, 0, 5]]]]
       [[[[2, 0, 5], [2, 0, 5]]]] [[[[1, 0, 0]]]] =
     Inl (RuntimeError ''einsum(): operands do not broadcast'')"
    by (simp add: eval_rules eval_nat_numeral)
  have 1: "CausalNumerator_forward [[[[1, 1, 1]]]] [[[[1, 1, 1]]]] [[[[2, 0, 0]]]] =
     Inr ([[[[6, 0, 0]]]], [[[[2, 0, 0], [2, 0, 0], [2, 0, 0]]]])"
    by (simp add: eval_rules eval_nat_numeral)
  have 2: "CausalNumerator_backward [[[[1, 1, 1]]]] [[[[1, 1, 1]]]] [[[[2, 0, 0]]]]
       [[[[2, 0, 0], [2, 0, 0], [2, 0, 0]]]] [[[[1, 0, 0]]]] =
     Inr ([[[[2, 2, 2]]]], [[[[1, 1, 1]]]], [[[[3, 0, 0]]]])"
    by (simp add: eval_rules eval_nat_numeral)
  have 3: "bnd (einsum_ijk_ijl_ijkl [[[1, 1, 1]]] [[[1, 0, 0]]])
       (\<lambda>G. einsum_ijkl_ijl_ijk G [[[2, 0, 0]]]) = Inr [[[2, 2, 2]]]"
    by (simp add: eval_rules eval_nat_numeral)
  have "((\<lambda>x::real. 2 * x + 4) has_real_derivative 2) (at 1)"
    by (auto intro!: derivative_eq_intros)
  then have 4: "((\<lambda>x. numerator_loss [[[[1, 1, 1]]]] [[[[x, 1, 1]]]] [[[[2, 0, 0]]]] [[[[1, 0, 0]]]])
      has_real_derivative 2) (at 1)"
    by (simp add: numerator_loss_along_key)
  show ?thesis using 1 2 3 4 5 by blast
qed


subsection \<open>C4: the non-causal normaliser\<close>

text \<open>
  C4. For \<open>q' = ((1, 2), (3, 4))\<close> and \<open>k' = ((1, 1), (1, 2))\<close> (one batch entry,
  one head, two positions, two features) the PyTorch normaliser is
  \<open>q' \<cdot> (2, 3) = (8, 18)\<close>, with \<open>(2, 3)\<close> the sum of \<open>k'\<close> over the positions. The
  TensorFlow file sums \<open>k'\<close> over every axis, to the single number 5, and its
  matrix product with that rank-1 operand raises; so does the aggregation when
  normalisation is on.
\<close>

theorem tf_normalizer_sums_every_axis:
  "normalizer [[[[1, 2], [3, 4]]]] [[[[1, 1], [1, 2]]]] = Inr [[[[8], [18]]]] \<and>
   sum_dim_m2 [[[[1, 1], [1, 2]]]] = [[[2, 3]]] \<and>
   tf_reduce_sum [[[[1, 1], [1, 2]]]] = 5 \<and>
   tf_normalizer [[[[1, 2], [3, 4]]]] [[[[1, 1], [1, 2]]]] =
     Inl (RuntimeError ''InvalidArgumentError: In[1] ndims must be >= 2'') \<and>
   tf_attention_output (performer_8_2\<lparr>normalize_output := True\<rparr>)
     [[[[1, 2], [3, 4]]]] [[[[1, 1], [1, 2]]]] [[[[2], [1]]]] None =
     Inl (RuntimeError ''InvalidArgumentError: In[1] ndims must be >= 2'')"
  by (simp add: normalizer_def matmul4_def unsqueeze_last_def sum_dim_m2_def tf_reduce_sum_def
        tf_normalizer_def tf_matmul_rank4_rank1_def tf_attention_output_def transpose_last_def
        t_mat_def eval_rules eval_nat_numeral)


subsection \<open>C10: the TensorFlow aggregation, the causal flag and the normaliser\<close>

lemma tf_aggregation_frame:
  "tf_attention_output (self\<lparr>causal := c, casual := c'\<rparr>) q_prime k_prime v msk =
     tf_attention_output self q_prime k_prime v msk"
  "tf_compute_attention_with_projected_queries_and_keys finalize (self\<lparr>causal := c, casual := c'\<rparr>)
       q_prime k_prime v msk head_mask =
     tf_compute_attention_with_projected_queries_and_keys finalize self q_prime k_prime v msk head_mask"
  "tf_attention_output (self\<lparr>causal := True, normalize_output := False\<rparr>) q_prime k_prime v None =
     attention_output (self\<lparr>casual := Some False, normalize_output := False\<rparr>) q_prime k_prime v None"
  by (simp_all add: tf_attention_output_def tf_compute_attention_with_projected_queries_and_keys_def
        attention_output_def bnd_def Let_def split: sum.splits)

lemma tf_normalised_aggregation_raises:
  "tf_attention_output (self\<lparr>normalize_output := True\<rparr>) q_prime k_prime v msk \<noteq> Inr output"
  by (simp add: tf_attention_output_def tf_normalizer_def tf_matmul_rank4_rank1_def bnd_def Let_def
        split: sum.splits option.splits)

lemmas aggregation_rules = attention_output_def tf_attention_output_def normalizer_def
  tf_normalizer_def tf_matmul_rank4_rank1_def matmul4_def transpose_last_def t_mat_def
  sum_dim_m2_def unsqueeze_last_def inplace4_def stabilize_def reshape_lbhx_def dereshape_bhlx_def
  einsum_lbh_bhl_def CausalDenominator_forward_def denominator_step_def bc3_def sum_dim2_def
  zeros_like3_def Let_def performer_8_2_def

lemma tf_normalised_example:
  "tf_attention_output (performer_8_2\<lparr>causal := c\<rparr>)
     [[[[1, 2], [3, 4]]]] [[[[1, 1], [1, 2]]]] [[[[2], [1]]]] None =
     Inl (RuntimeError ''InvalidArgumentError: In[1] ndims must be >= 2'')"
  by (simp add: aggregation_rules eval_rules eval_nat_numeral)

lemma torch_normalised_example:
  "attention_output (performer_8_2\<lparr>casual := Some False\<rparr>)
     [[[[1, 2], [3, 4]]]] [[[[1, 1], [1, 2]]]] [[[[2], [1]]]] None = Inr [[[[11 / 8], [25 / 18]]]]"
  by (simp add: aggregation_rules eval_rules eval_nat_numeral)

lemma tf_plain_example:
  "tf_attention_output (performer_8_2\<lparr>causal := True, normalize_output := False\<rparr>)
     [[[[1, 2], [3, 4]]]] [[[[1, 1], [1, 2]]]] [[[[2], [1]]]] None = Inr [[[[11], [25]]]]"
  by (simp add: aggregation_rules eval_rules eval_nat_numeral)

lemma torch_causal_plain_example:
  "attention_output (performer_8_2\<lparr>casual := Some True, normalize_output := False\<rparr>)
     [[[[1, 2], [3, 4]]]] [[[[1, 1], [1, 2]]]] [[[[2], [1]]]] None = Inr [[[[6], [25]]]]"
  by (simp add: aggregation_rules eval_rules eval_nat_numeral)

text \<open>
  C10. The claim has the TensorFlow aggregation perform the non-causal
  aggregation \<open>q' (k'\<^sup>T v)\<close> with the non-causal normaliser whatever the causal
  flag. The result is the same for every value of the flag (under either
  spelling), with or without the output stage, and without normalisation it is the
  non-causal product of the PyTorch file, also when \<^verbatim>\<open>causal\<close> is set: on
  \<open>q' = ((1, 2), (3, 4))\<close>, \<open>k' = ((1, 1), (1, 2))\<close>, \<open>v = (2, 1)\<close> it is \<open>(11, 25)\<close>,
  where the causal recurrence gives \<open>(6, 25)\<close>. With normalisation on, the function
  returns an output on no input: on the same tensors, with \<^verbatim>\<open>causal\<close> true or
  false, it raises at the normaliser, where the non-causal aggregation with the
  normaliser \<open>q'\<close> times the sum of \<open>k'\<close> over the positions gives \<open>(11/8, 25/18)\<close>.
\<close>

theorem tf_aggregation_causal_flag_and_normalizer:
  "tf_attention_output (self\<lparr>causal := c, casual := c'\<rparr>) q_prime k_prime v msk =
     tf_attention_output self q_prime k_prime v msk \<and>
   tf_compute_attention_with_projected_queries_and_keys finalize (self\<lparr>causal := c, casual := c'\<rparr>)
       q_prime k_prime v msk head_mask =
     tf_compute_attention_with_projected_queries_and_keys finalize self q_prime k_prime v msk head_mask \<and>
   tf_attention_output (self\<lparr>causal := True, normalize_output := False\<rparr>) q_prime k_prime v None =
     attention_output (self\<lparr>casual := Some False, normalize_output := False\<rparr>) q_prime k_prime v None \<and>
   tf_attention_output (performer_8_2\<lparr>causal := True, normalize_output := False\<rparr>)
     [[[[1, 2], [3, 4]]]] [[[[1, 1], [1, 2]]]] [[[[2], [1]]]] None = Inr [[[[11], [25]]]] \<and>
   attention_output (performer_8_2\<lparr>casual := Some True, normalize_output := False\<rparr>)
     [[[[1, 2], [3, 4]]]] [[[[1, 1], [1, 2]]]] [[[[2], [1]]]] None = Inr [[[[6], [25]]]] \<and>
   tf_attention_output (self\<lparr>normalize_output := True\<rparr>) q_prime k_prime v msk \<noteq> Inr output \<and>
   normalize_output (performer_8_2\<lparr>causal := True\<rparr>) \<and>
   tf_attention_output (performer_8_2\<lparr>causal := True\<rparr>)
     [[[[1, 2], [3, 4]]]] [[[[1, 1], [1, 2]]]] [[[[2], [1]]]] None =
     Inl (RuntimeError ''InvalidArgumentError: In[1] ndims must be >= 2'') \<and>
   tf_attention_output (performer_8_2\<lparr>causal := False\<rparr>)
     [[[[1, 2], [3, 4]]]] [[[[1, 1], [1, 2]]]] [[[[2], [1]]]] None =
     Inl (RuntimeError ''InvalidArgumentError: In[1] ndims must be >= 2'') \<and>
   attention_output (performer_8_2\<lparr>casual := Some False\<rparr>)
     [[[[1, 2], [3, 4]]]] [[[[1, 1], [1, 2]]]] [[[[2], [1]]]] None = Inr [[[[11 / 8], [25 / 18]]]]"
proof -
  have n: "normalize_output (performer_8_2\<lparr>causal := True\<rparr>)"
    by (simp add: performer_8_2_def)
  show ?thesis
    by (intro conjI;
        rule tf_plain_example torch_causal_plain_example tf_normalised_example
          torch_normalised_example tf_aggregation_frame tf_normalised_aggregation_raises n)
qed


subsection \<open>The constructed instance\<close>

text \<open>
  The constructor returns \<open>performer_8_2\<close> (in training mode) from its own
  attributes, and for the relu kernel the policy of a constructed instance never
  selects the exact path.
\<close>

lemma init_performer_8_2:
  "init performer_8_2 None = Inr (performer_8_2\<lparr>training := True\<rparr>)"
  by (simp add: init_def performer_8_2_def lookup_behavior_def
        SHORT_SEQUENCE_BEHAVIOR_CALLABLES_def KERNEL_CALLABLES_def bnd_def)

lemma lookup_never_use_softmax: "lookup_behavior ''never_use_softmax'' = Inr never_use_softmax"
  by (simp add: lookup_behavior_def SHORT_SEQUENCE_BEHAVIOR_CALLABLES_def)

lemma init_relu_never_falls_back:
  assumes i: "init attrs b = Inr self" and r: "kernel_type attrs = ''relu''"
  shows "should_fallback_to_softmax self = never_use_softmax"
proof (cases "b = None \<or> b = Some (Named [])")
  case True
  with i r show ?thesis
    by (auto simp: init_def Let_def bnd_def lookup_never_use_softmax
        split: option.splits if_splits)
next
  case False
  show ?thesis
  proof (cases "b = Some (Named ''never_use_softmax'')")
    case True
    with i r show ?thesis
      by (auto simp: init_def Let_def bnd_def lookup_never_use_softmax
          split: option.splits if_splits)
  next
    case n: False
    from i r False n have False
      by (simp add: init_def Let_def bnd_def)
    then show ?thesis ..
  qed
qed

subsection \<open>Evaluating a forward call\<close>

text \<open>Tables of a numeral length unfold from the right.\<close>

lemma tab_numeral: "tab (numeral n) f = tab (pred_numeral n) f @ [f (pred_numeral n)]"
  by (simp add: numeral_eq_Suc tab_Suc)

lemma tab_Suc0: "tab (Suc 0) f = [f 0]"
  by (simp add: tab_def)

lemma sum_lessThan_numeral:
  "sum f {..<numeral n} = sum f {..<pred_numeral n} + (f (pred_numeral n) :: real)"
  by (simp add: numeral_eq_Suc)

lemmas num_eval = tab_numeral tab_Suc sum_lessThan_numeral

lemmas shape_rules = forward_heads_def shape_heads_def Let_def bnd_def dim1_def dim2_def dim3_def

lemma heads_late:
  "forward_heads (performer_8_2\<lparr>casual := c, random_features := r\<rparr>) zeros_1_3_8 zeros_1_3_8 late_value_1_3_8 =
   Inr (zero_heads, zero_heads, late_heads, 3, 3, 8, py_round (4 * ln 4))"
  by (simp add: shape_rules performer_8_2_def num_eval zeros_1_3_8_def late_value_1_3_8_def
        zero_heads_def late_heads_def)

lemma heads_zeros:
  "forward_heads (performer_8_2\<lparr>casual := c, random_features := r\<rparr>) zeros_1_3_8 zeros_1_3_8 zeros_1_3_8 =
   Inr (zero_heads, zero_heads, zero_heads, 3, 3, 8, py_round (4 * ln 4))"
  by (simp add: shape_rules performer_8_2_def num_eval zeros_1_3_8_def zero_heads_def)

lemma projected_zero:
  "get_projected_queries_and_keys (performer_8_2\<lparr>casual := c, random_features := Some features_6_4\<rparr>)
     zero_heads zero_heads = Inr (eps_features, eps_features)"
  by (simp add: get_projected_queries_and_keys_def kernel_outputs_def expand_features_t_def
        matmul4_def map4_def KERNEL_CALLABLES_def relu_def bc_ok_def bc_dim_def bget_def
        Let_def bnd_def dim1_def dim2_def dim3_def performer_8_2_def features_6_4_def
        zero_heads_def eps_features_def num_eval)

lemmas attention_rules = compute_attention_with_projected_queries_and_keys_def attention_output_def
  finalize_attention_output_def linear_apply_def unshape_def normalizer_def matmul4_def
  transpose_last_def t_mat_def sum_dim_m2_def unsqueeze_last_def inplace4_def stabilize_def
  identity_linear_def bc_ok_def bc_dim_def bget_def Let_def bnd_def dim1_def dim2_def dim3_def

lemma attention_late:
  "compute_attention_with_projected_queries_and_keys
     (performer_8_2\<lparr>casual := Some False, random_features := Some features_6_4\<rparr>)
     eps_features eps_features late_heads None None = Inr (ones_1_3_8, None)"
  by (simp add: attention_rules performer_8_2_def eps_features_def late_heads_def ones_1_3_8_def
        num_eval)

lemma attention_zeros:
  "compute_attention_with_projected_queries_and_keys
     (performer_8_2\<lparr>casual := Some False, random_features := Some features_6_4\<rparr>)
     eps_features eps_features zero_heads None None = Inr (zeros_1_3_8, None)"
  by (simp add: attention_rules performer_8_2_def eps_features_def zero_heads_def zeros_1_3_8_def
        num_eval)

lemma attention_no_attribute:
  "compute_attention_with_projected_queries_and_keys
     (performer_8_2\<lparr>casual := None, random_features := Some features_6_4\<rparr>)
     q_prime k_prime v None head_mask = Inl (AttributeError ''casual'')"
  by (simp add: compute_attention_with_projected_queries_and_keys_def attention_output_def
        bnd_def performer_8_2_def)

lemma scheduler_idle:
  "redraw_features_if_needed qr (performer_8_2\<lparr>casual := c, random_features := Some features_6_4\<rparr>) w =
   Inr (performer_8_2\<lparr>casual := c, random_features := Some features_6_4\<rparr>, w)"
  by (simp add: redraw_features_if_needed_def performer_8_2_def)

lemma policy_never_selects_softmax: "\<not> should_fallback_to_softmax performer_8_2 L m t"
  by (simp add: performer_8_2_def never_use_softmax_def)


subsection \<open>C3: causality of the configured module\<close>

text \<open>
  C3. The module has \<^verbatim>\<open>d_model = 8\<close>, \<^verbatim>\<open>num_heads = 2\<close>, the relu kernel,
  \<^verbatim>\<open>causal = True\<close> and a feature matrix. The approximate path reads the
  attribute \<^verbatim>\<open>casual\<close>, not \<^verbatim>\<open>causal\<close>. On an instance without an attribute of
  that spelling the forward call raises \<^verbatim>\<open>AttributeError\<close>. On an instance where
  it exists and is false, while \<^verbatim>\<open>causal\<close> is true, two calls with the same
  (zero) queries and keys, no mask, and values that differ only at position 3
  return different outputs at positions 1 and 2: all zeros in one call, all ones
  in the other.
\<close>

theorem causal_flag_not_read:
  "forward sample_qr (performer_8_2\<lparr>casual := None, random_features := Some features_6_4\<rparr>)
     sample_world zeros_1_3_8 zeros_1_3_8 zeros_1_3_8 None None False =
     Inl (AttributeError ''casual'') \<and>
   causal (performer_8_2\<lparr>casual := Some False, random_features := Some features_6_4\<rparr>) \<and>
   forward sample_qr (performer_8_2\<lparr>casual := Some False, random_features := Some features_6_4\<rparr>)
     sample_world zeros_1_3_8 zeros_1_3_8 zeros_1_3_8 None None False =
     Inr ((zeros_1_3_8, None),
          performer_8_2\<lparr>casual := Some False, random_features := Some features_6_4\<rparr>, sample_world) \<and>
   forward sample_qr (performer_8_2\<lparr>casual := Some False, random_features := Some features_6_4\<rparr>)
     sample_world zeros_1_3_8 zeros_1_3_8 late_value_1_3_8 None None False =
     Inr ((ones_1_3_8, None),
          performer_8_2\<lparr>casual := Some False, random_features := Some features_6_4\<rparr>, sample_world) \<and>
   zeros_1_3_8 ! 0 ! 0 \<noteq> ones_1_3_8 ! 0 ! 0 \<and> zeros_1_3_8 ! 0 ! 1 \<noteq> ones_1_3_8 ! 0 ! 1 \<and>
   zeros_1_3_8 ! 0 ! 0 = late_value_1_3_8 ! 0 ! 0 \<and> zeros_1_3_8 ! 0 ! 1 = late_value_1_3_8 ! 0 ! 1"
proof -
  have 1: "forward sample_qr (performer_8_2\<lparr>casual := None, random_features := Some features_6_4\<rparr>)
     sample_world zeros_1_3_8 zeros_1_3_8 zeros_1_3_8 None None False =
     Inl (AttributeError ''casual'')"
    by (simp add: forward_def bnd_def heads_zeros scheduler_idle projected_zero attention_no_attribute policy_never_selects_softmax)
  have 2: "forward sample_qr (performer_8_2\<lparr>casual := Some False, random_features := Some features_6_4\<rparr>)
     sample_world zeros_1_3_8 zeros_1_3_8 zeros_1_3_8 None None False =
     Inr ((zeros_1_3_8, None),
          performer_8_2\<lparr>casual := Some False, random_features := Some features_6_4\<rparr>, sample_world)"
    by (simp add: forward_def bnd_def heads_zeros scheduler_idle projected_zero attention_zeros policy_never_selects_softmax)
  have 3: "forward sample_qr (performer_8_2\<lparr>casual := Some False, random_features := Some features_6_4\<rparr>)
     sample_world zeros_1_3_8 zeros_1_3_8 late_value_1_3_8 None None False =
     Inr ((ones_1_3_8, None),
          performer_8_2\<lparr>casual := Some False, random_features := Some features_6_4\<rparr>, sample_world)"
    by (simp add: forward_def bnd_def heads_late scheduler_idle projected_zero attention_late policy_never_selects_softmax)
  have 4: "causal (performer_8_2\<lparr>casual := Some False, random_features := Some features_6_4\<rparr>)"
    by (simp add: performer_8_2_def)
  have 5: "zeros_1_3_8 ! 0 ! 0 \<noteq> ones_1_3_8 ! 0 ! 0" "zeros_1_3_8 ! 0 ! 1 \<noteq> ones_1_3_8 ! 0 ! 1"
    "zeros_1_3_8 ! 0 ! 0 = late_value_1_3_8 ! 0 ! 0" "zeros_1_3_8 ! 0 ! 1 = late_value_1_3_8 ! 0 ! 1"
    by (simp_all add: zeros_1_3_8_def ones_1_3_8_def late_value_1_3_8_def)
  show ?thesis using 1 2 3 4 5 by blast
qed


subsection \<open>C9: attention maps on the approximate path\<close>

text \<open>
  C9. When the part of \<^verbatim>\<open>forward\<close> before the fallback decision succeeds and
  the policy does not select the exact path, a call with \<^verbatim>\<open>output_attentions\<close>
  set returns the \<^verbatim>\<open>ValueError\<close> of the source: the scheduler and the feature
  map are not run, and no attention map is returned.
\<close>

theorem forward_refuses_attention_maps:
  assumes "forward_heads self query key val = Inr (q, k, v, q_length, k_length, dm, m)"
    and "\<not> should_fallback_to_softmax self q_length m (training self)"
  shows "forward qr self w query key val msk head_mask True =
         Inl (ValueError
           ''PerformerAttention: Can't output attention maps when using FAVOR+ linear attention.'')"
  using assms by (simp add: forward_def bnd_def)

theorem forward_refuses_attention_maps_witness:
  "forward_heads (performer_8_2\<lparr>casual := Some True, random_features := None\<rparr>)
     zeros_1_3_8 zeros_1_3_8 zeros_1_3_8 =
     Inr (zero_heads, zero_heads, zero_heads, 3, 3, 8, py_round (4 * ln 4)) \<and>
   \<not> should_fallback_to_softmax (performer_8_2\<lparr>casual := Some True, random_features := None\<rparr>) 3
       (py_round (4 * ln 4)) (training (performer_8_2\<lparr>casual := Some True, random_features := None\<rparr>)) \<and>
   forward sample_qr (performer_8_2\<lparr>casual := Some True, random_features := None\<rparr>) sample_world
     zeros_1_3_8 zeros_1_3_8 zeros_1_3_8 None None True =
     Inl (ValueError
       ''PerformerAttention: Can't output attention maps when using FAVOR+ linear attention.'')"
proof -
  let ?s = "performer_8_2\<lparr>casual := Some True, random_features := None\<rparr>"
  have h: "forward_heads ?s zeros_1_3_8 zeros_1_3_8 zeros_1_3_8 =
     Inr (zero_heads, zero_heads, zero_heads, 3, 3, 8, py_round (4 * ln 4))"
    by (rule heads_zeros)
  have g: "\<not> should_fallback_to_softmax ?s 3 (py_round (4 * ln 4)) (training ?s)"
    by (simp add: policy_never_selects_softmax)
  from forward_refuses_attention_maps [OF h g, of sample_qr sample_world None None] h g
  show ?thesis by blast
qed


subsection \<open>C8: the first generation\<close>

lemma heads_zeros_plain:
  "forward_heads (performer_8_2\<lparr>use_orthogonal_features := False\<rparr>) zeros_1_3_8 zeros_1_3_8 zeros_1_3_8 =
   Inr (zero_heads, zero_heads, zero_heads, 3, 3, 8, py_round (4 * ln 4))"
  by (simp add: shape_rules performer_8_2_def num_eval zeros_1_3_8_def zero_heads_def)

lemma generation_without_orthogonal_features:
  "generate_feature_matrix qr (performer_8_2\<lparr>use_orthogonal_features := False\<rparr>) w =
     Inr (Some (fst (randn (nat (py_round (4 * ln 4))) 4 w)),
          performer_8_2\<lparr>use_orthogonal_features := False\<rparr>,
          snd (randn (nat (py_round (4 * ln 4))) 4 w))"
  "redraw_features_if_needed qr (performer_8_2\<lparr>use_orthogonal_features := False\<rparr>) w =
     Inr (performer_8_2\<lparr>use_orthogonal_features := False\<rparr>,
          snd (randn (nat (py_round (4 * ln 4))) 4 w))"
  by (simp_all add: generate_feature_matrix_def redraw_features_if_needed_def performer_8_2_def
        Let_def bnd_def split: prod.splits)

lemma projection_without_features:
  "random_features self = None \<Longrightarrow>
   get_projected_queries_and_keys self q k =
     Inl (AttributeError ''NoneType object has no attribute shape'')"
  by (simp add: get_projected_queries_and_keys_def kernel_outputs_def bnd_def)

lemma first_forward_fails:
  "forward qr (performer_8_2\<lparr>use_orthogonal_features := False\<rparr>) w
     zeros_1_3_8 zeros_1_3_8 zeros_1_3_8 None None False =
   Inl (AttributeError ''NoneType object has no attribute shape'')"
proof -
  have "random_features (performer_8_2\<lparr>use_orthogonal_features := False\<rparr>) = None"
    by (simp add: performer_8_2_def)
  then show ?thesis
    by (simp add: forward_def bnd_def heads_zeros_plain policy_never_selects_softmax
          generation_without_orthogonal_features projection_without_features)
qed

text \<open>
  C8. The claim asks that the generation step always stores the matrix it
  produces. On the instance below, which differs from \<open>performer_8_2\<close> only in
  \<^verbatim>\<open>use_orthogonal_features = False\<close> and has no feature matrix yet, the generation
  step returns the Gaussian matrix to its caller and leaves the instance as it
  was; the scheduler, which ignores the returned value, hands the instance on
  with \<^verbatim>\<open>random_features\<close> still \<open>None\<close>; and the first forward call on the
  approximate path raises \<^verbatim>\<open>AttributeError\<close> when the feature map reads the shape
  of the matrix.
\<close>

theorem generate_without_orthogonal_features:
  "generate_feature_matrix qr (performer_8_2\<lparr>use_orthogonal_features := False\<rparr>) w =
     Inr (Some (fst (randn (nat (py_round (4 * ln 4))) 4 w)),
          performer_8_2\<lparr>use_orthogonal_features := False\<rparr>,
          snd (randn (nat (py_round (4 * ln 4))) 4 w)) \<and>
   redraw_features_if_needed qr (performer_8_2\<lparr>use_orthogonal_features := False\<rparr>) w =
     Inr (performer_8_2\<lparr>use_orthogonal_features := False\<rparr>,
          snd (randn (nat (py_round (4 * ln 4))) 4 w)) \<and>
   random_features (performer_8_2\<lparr>use_orthogonal_features := False\<rparr>) = None \<and>
   forward qr (performer_8_2\<lparr>use_orthogonal_features := False\<rparr>) w
     zeros_1_3_8 zeros_1_3_8 zeros_1_3_8 None None False =
     Inl (AttributeError ''NoneType object has no attribute shape'')"
  using generation_without_orthogonal_features [of qr w] first_forward_fails [of qr w]
  by (simp add: performer_8_2_def)


subsection \<open>C5: the prime features\<close>

lemma all4_map4:
  "all4 P x \<Longrightarrow> (\<And>y. P y \<Longrightarrow> Q (f y)) \<Longrightarrow> all4 Q (map4 f x)"
  by (simp add: all4_def map4_def list_all_iff)

lemma all4_map4_all: "(\<And>y. Q (f y)) \<Longrightarrow> all4 Q (map4 f x)"
  by (simp add: all4_def map4_def list_all_iff)

lemma list_all_map2_append:
  "list_all (list_all P) a \<Longrightarrow> list_all (list_all P) b \<Longrightarrow> list_all (list_all P) (map2 (@) a b)"
  by (auto simp: list_all_iff dest!: set_zip_leftD set_zip_rightD  elim!: in_set_zipE)

lemma all4_cat_last: "all4 P a \<Longrightarrow> all4 P b \<Longrightarrow> all4 P (cat_last a b)"
  unfolding all4_def cat_last_def
  by (auto simp: list_all_iff elim!: in_set_zipE) 

lemma elu_plus_one_pos: "0 < elu x + 1"
  by (simp add: elu_def add_pos_pos)

lemma kernel_outputs_nonneg:
  assumes "kernel_outputs self q k = Inr (qko, kko)"
  shows "all4 (\<lambda>x. 0 \<le> x) qko \<and> all4 (\<lambda>x. 0 \<le> x) kko"
  using assms
  by (auto simp: kernel_outputs_def KERNEL_CALLABLES_def bnd_def Let_def relu_def
        less_imp_le [OF elu_plus_one_pos]
      intro!: all4_map4_all all4_cat_last
      split: option.splits sum.splits if_splits kernel_callable.splits)

lemmas feature_rules = get_projected_queries_and_keys_def kernel_outputs_def expand_features_t_def
  matmul4_def map4_def h_of_def torch_max_def bc4_def KERNEL_CALLABLES_def relu_def bc_ok_def
  bc_dim_def bget_def Let_def bnd_def dim1_def dim2_def dim3_def performer_8_2_def
  features_6_4_def

lemma exp_outputs:
  "kernel_outputs (performer_8_2\<lparr>kernel_type := ''exp'', random_features := Some features_6_4\<rparr>)
     [[[[0, 0, 0, 0]], [[0, 0, 0, 0]]]] [[[[0, 0, 0, 0]], [[0, 0, 0, 0]]]] =
   Inr ([[[[1, 1, 1, 1, 1, 1]], [[1, 1, 1, 1, 1, 1]]]], [[[[1, 1, 1, 1, 1, 1]], [[1, 1, 1, 1, 1, 1]]]])"
  by (simp add: feature_rules num_eval)

lemma relu_outputs:
  "kernel_outputs (performer_8_2\<lparr>random_features := Some features_6_4\<rparr>)
     [[[[1, 0, 0, 0]], [[1, 0, 0, 0]]]] [[[[1, 0, 0, 0]], [[1, 0, 0, 0]]]] =
   Inr ([[[[1 / 8 powr (1 / 4), 0, 0, 0, 1 / 8 powr (1 / 4), 0]],
          [[1 / 8 powr (1 / 4), 0, 0, 0, 1 / 8 powr (1 / 4), 0]]]],
        [[[[1 / 8 powr (1 / 4), 0, 0, 0, 1 / 8 powr (1 / 4), 0]],
          [[1 / 8 powr (1 / 4), 0, 0, 0, 1 / 8 powr (1 / 4), 0]]]])"
  by (simp add: feature_rules num_eval)

lemma exp_projected:
  "get_projected_queries_and_keys (performer_8_2\<lparr>kernel_type := ''exp'', random_features := Some features_6_4\<rparr>)
     [[[[0, 0, 0, 0]], [[0, 0, 0, 0]]]] [[[[0, 0, 0, 0]], [[0, 0, 0, 0]]]] =
   Inr ([[[[6 powr (- (1 / 2)) * (1 + 1 / 1000), 6 powr (- (1 / 2)) * (1 + 1 / 1000), 6 powr (- (1 / 2)) * (1 + 1 / 1000), 6 powr (- (1 / 2)) * (1 + 1 / 1000), 6 powr (- (1 / 2)) * (1 + 1 / 1000), 6 powr (- (1 / 2)) * (1 + 1 / 1000)]], [[6 powr (- (1 / 2)) * (1 + 1 / 1000), 6 powr (- (1 / 2)) * (1 + 1 / 1000), 6 powr (- (1 / 2)) * (1 + 1 / 1000), 6 powr (- (1 / 2)) * (1 + 1 / 1000), 6 powr (- (1 / 2)) * (1 + 1 / 1000), 6 powr (- (1 / 2)) * (1 + 1 / 1000)]]]],
        [[[[6 powr (- (1 / 2)) * (1 + 1 / 1000), 6 powr (- (1 / 2)) * (1 + 1 / 1000), 6 powr (- (1 / 2)) * (1 + 1 / 1000), 6 powr (- (1 / 2)) * (1 + 1 / 1000), 6 powr (- (1 / 2)) * (1 + 1 / 1000), 6 powr (- (1 / 2)) * (1 + 1 / 1000)]], [[6 powr (- (1 / 2)) * (1 + 1 / 1000), 6 powr (- (1 / 2)) * (1 + 1 / 1000), 6 powr (- (1 / 2)) * (1 + 1 / 1000), 6 powr (- (1 / 2)) * (1 + 1 / 1000), 6 powr (- (1 / 2)) * (1 + 1 / 1000), 6 powr (- (1 / 2)) * (1 + 1 / 1000)]]]])"
  by (simp add: get_projected_queries_and_keys_def exp_outputs bnd_def dim3_def map4_def)
     (simp add: performer_8_2_def Let_def)

lemma relu_projected:
  "get_projected_queries_and_keys (performer_8_2\<lparr>random_features := Some features_6_4\<rparr>)
     [[[[1, 0, 0, 0]], [[1, 0, 0, 0]]]] [[[[1, 0, 0, 0]], [[1, 0, 0, 0]]]] =
   Inr ([[[[1 / 8 powr (1 / 4) + 1 / 1000, 1 / 1000, 1 / 1000, 1 / 1000, 1 / 8 powr (1 / 4) + 1 / 1000, 1 / 1000]], [[1 / 8 powr (1 / 4) + 1 / 1000, 1 / 1000, 1 / 1000, 1 / 1000, 1 / 8 powr (1 / 4) + 1 / 1000, 1 / 1000]]]],
        [[[[1 / 8 powr (1 / 4) + 1 / 1000, 1 / 1000, 1 / 1000, 1 / 1000, 1 / 8 powr (1 / 4) + 1 / 1000, 1 / 1000]], [[1 / 8 powr (1 / 4) + 1 / 1000, 1 / 1000, 1 / 1000, 1 / 1000, 1 / 8 powr (1 / 4) + 1 / 1000, 1 / 1000]]]])"
  by (simp add: get_projected_queries_and_keys_def relu_outputs bnd_def map4_def)
     (simp add: performer_8_2_def Let_def)

lemma inv_sqrt_6: "(6::real) powr (- (1 / 2)) < 1" "0 < (6::real) powr (- (1 / 2))"
  by (rule powr_less_one) simp_all

text \<open>
  For the \<^verbatim>\<open>exp\<close> kernel on zero queries, with 6 features and
  \<^verbatim>\<open>kernel_epsilon = 1/1000\<close>, every kernel output is 1 and every prime feature is
  \<open>6\<^sup>-\<^sup>1\<^sup>/\<^sup>2 (1 + 1/1000)\<close>, not \<open>1 \<cdot> 6\<^sup>-\<^sup>1\<^sup>/\<^sup>2 + 1/1000\<close>: the epsilon is added before the
  scaling. For the \<^verbatim>\<open>relu\<close> kernel on the query \<open>(1, 0, 0, 0)\<close> the first kernel
  output is \<open>8\<^sup>-\<^sup>1\<^sup>/\<^sup>4\<close> and the prime feature is \<open>8\<^sup>-\<^sup>1\<^sup>/\<^sup>4 + 1/1000\<close>: there is no
  scaling.
\<close>

theorem prime_features_scaling_counterexample:
  "kernel_outputs (performer_8_2\<lparr>kernel_type := ''exp'', random_features := Some features_6_4\<rparr>)
     [[[[0, 0, 0, 0]], [[0, 0, 0, 0]]]] [[[[0, 0, 0, 0]], [[0, 0, 0, 0]]]] =
     Inr ([[[[1, 1, 1, 1, 1, 1]], [[1, 1, 1, 1, 1, 1]]]], [[[[1, 1, 1, 1, 1, 1]], [[1, 1, 1, 1, 1, 1]]]]) \<and>
   get_projected_queries_and_keys (performer_8_2\<lparr>kernel_type := ''exp'', random_features := Some features_6_4\<rparr>)
     [[[[0, 0, 0, 0]], [[0, 0, 0, 0]]]] [[[[0, 0, 0, 0]], [[0, 0, 0, 0]]]] =
     Inr ([[[[6 powr (- (1 / 2)) * (1 + 1 / 1000), 6 powr (- (1 / 2)) * (1 + 1 / 1000), 6 powr (- (1 / 2)) * (1 + 1 / 1000), 6 powr (- (1 / 2)) * (1 + 1 / 1000), 6 powr (- (1 / 2)) * (1 + 1 / 1000), 6 powr (- (1 / 2)) * (1 + 1 / 1000)]], [[6 powr (- (1 / 2)) * (1 + 1 / 1000), 6 powr (- (1 / 2)) * (1 + 1 / 1000), 6 powr (- (1 / 2)) * (1 + 1 / 1000), 6 powr (- (1 / 2)) * (1 + 1 / 1000), 6 powr (- (1 / 2)) * (1 + 1 / 1000), 6 powr (- (1 / 2)) * (1 + 1 / 1000)]]]],
          [[[[6 powr (- (1 / 2)) * (1 + 1 / 1000), 6 powr (- (1 / 2)) * (1 + 1 / 1000), 6 powr (- (1 / 2)) * (1 + 1 / 1000), 6 powr (- (1 / 2)) * (1 + 1 / 1000), 6 powr (- (1 / 2)) * (1 + 1 / 1000), 6 powr (- (1 / 2)) * (1 + 1 / 1000)]], [[6 powr (- (1 / 2)) * (1 + 1 / 1000), 6 powr (- (1 / 2)) * (1 + 1 / 1000), 6 powr (- (1 / 2)) * (1 + 1 / 1000), 6 powr (- (1 / 2)) * (1 + 1 / 1000), 6 powr (- (1 / 2)) * (1 + 1 / 1000), 6 powr (- (1 / 2)) * (1 + 1 / 1000)]]]]) \<and>
   (6::real) powr (- (1 / 2)) * (1 + 1 / 1000) \<noteq> 1 * 6 powr (- (1 / 2)) + 1 / 1000 \<and>
   kernel_outputs (performer_8_2\<lparr>random_features := Some features_6_4\<rparr>)
     [[[[1, 0, 0, 0]], [[1, 0, 0, 0]]]] [[[[1, 0, 0, 0]], [[1, 0, 0, 0]]]] =
     Inr ([[[[1 / 8 powr (1 / 4), 0, 0, 0, 1 / 8 powr (1 / 4), 0]], [[1 / 8 powr (1 / 4), 0, 0, 0, 1 / 8 powr (1 / 4), 0]]]],
          [[[[1 / 8 powr (1 / 4), 0, 0, 0, 1 / 8 powr (1 / 4), 0]], [[1 / 8 powr (1 / 4), 0, 0, 0, 1 / 8 powr (1 / 4), 0]]]]) \<and>
   get_projected_queries_and_keys (performer_8_2\<lparr>random_features := Some features_6_4\<rparr>)
     [[[[1, 0, 0, 0]], [[1, 0, 0, 0]]]] [[[[1, 0, 0, 0]], [[1, 0, 0, 0]]]] =
     Inr ([[[[1 / 8 powr (1 / 4) + 1 / 1000, 1 / 1000, 1 / 1000, 1 / 1000, 1 / 8 powr (1 / 4) + 1 / 1000, 1 / 1000]], [[1 / 8 powr (1 / 4) + 1 / 1000, 1 / 1000, 1 / 1000, 1 / 1000, 1 / 8 powr (1 / 4) + 1 / 1000, 1 / 1000]]]],
          [[[[1 / 8 powr (1 / 4) + 1 / 1000, 1 / 1000, 1 / 1000, 1 / 1000, 1 / 8 powr (1 / 4) + 1 / 1000, 1 / 1000]], [[1 / 8 powr (1 / 4) + 1 / 1000, 1 / 1000, 1 / 1000, 1 / 1000, 1 / 8 powr (1 / 4) + 1 / 1000, 1 / 1000]]]]) \<and>
   1 / (8::real) powr (1 / 4) + 1 / 1000 \<noteq> 1 / (8::real) powr (1 / 4) * 6 powr (- (1 / 2)) + 1 / 1000"
proof -
  have a: "(6::real) powr (- (1 / 2)) * (1 + 1 / 1000) \<noteq> 1 * 6 powr (- (1 / 2)) + 1 / 1000"
    using inv_sqrt_6 by (simp add: algebra_simps)
  have "0 < 1 / (8::real) powr (1 / 4)" by simp
  then have "1 / (8::real) powr (1 / 4) * 6 powr (- (1 / 2)) < 1 / (8::real) powr (1 / 4) * 1"
    using inv_sqrt_6(1) by (intro mult_strict_left_mono)
  then have b: "1 / (8::real) powr (1 / 4) + 1 / 1000 \<noteq> 1 / (8::real) powr (1 / 4) * 6 powr (- (1 / 2)) + 1 / 1000"
    by simp
  show ?thesis using exp_outputs exp_projected relu_outputs relu_projected a b by blast
qed

text \<open>
  C5 (as amended). When the kernel outputs are computed and the feature map
  returns: for \<^verbatim>\<open>cosh\<close> and \<^verbatim>\<open>exp\<close> every prime feature is
  \<open>M\<^sup>-\<^sup>1\<^sup>/\<^sup>2 (kernel output + kernel_epsilon)\<close>, \<open>M\<close> the last dimension of the query
  kernel output; for \<^verbatim>\<open>elu\<close> and \<^verbatim>\<open>relu\<close> it is \<open>kernel output + kernel_epsilon\<close>;
  and with a positive \<^verbatim>\<open>kernel_epsilon\<close> every prime feature is positive.
\<close>

theorem prime_features_positive:
  assumes "kernel_outputs self q k = Inr (qko, kko)"
    and "get_projected_queries_and_keys self q k = Inr (q_prime, k_prime)"
    and "0 < kernel_epsilon self"
  shows "(if kernel_type self = ''cosh'' \<or> kernel_type self = ''exp''
          then q_prime = map4 (\<lambda>x. real (dim3 qko) powr (- (1 / 2)) * (x + kernel_epsilon self)) qko \<and>
               k_prime = map4 (\<lambda>x. real (dim3 qko) powr (- (1 / 2)) * (x + kernel_epsilon self)) kko
          else q_prime = map4 (\<lambda>x. x + kernel_epsilon self) qko \<and>
               k_prime = map4 (\<lambda>x. x + kernel_epsilon self) kko) \<and>
         all4 (\<lambda>x. 0 < x) q_prime \<and> all4 (\<lambda>x. 0 < x) k_prime"
proof -
  note nn = kernel_outputs_nonneg [OF assms(1)]
  show ?thesis
  proof (cases "kernel_type self = ''cosh'' \<or> kernel_type self = ''exp''")
    case True
    with assms(1,2) have d: "dim3 qko \<noteq> 0"
      and qp: "q_prime = map4 (\<lambda>x. real (dim3 qko) powr (- (1 / 2)) * (x + kernel_epsilon self)) qko"
      and kp: "k_prime = map4 (\<lambda>x. real (dim3 qko) powr (- (1 / 2)) * (x + kernel_epsilon self)) kko"
      by (auto simp: get_projected_queries_and_keys_def bnd_def Let_def split: if_splits)
    have pos: "0 \<le> y \<Longrightarrow> 0 < real (dim3 qko) powr (- (1 / 2)) * (y + kernel_epsilon self)" for y
      using d assms(3) by (intro mult_pos_pos) simp_all
    show ?thesis
      using True qp kp nn pos by (auto intro: all4_map4)
  next
    case False
    with assms(1,2) have qp: "q_prime = map4 (\<lambda>x. x + kernel_epsilon self) qko"
      and kp: "k_prime = map4 (\<lambda>x. x + kernel_epsilon self) kko"
      by (auto simp: get_projected_queries_and_keys_def bnd_def)
    have pos: "0 \<le> y \<Longrightarrow> 0 < y + kernel_epsilon self" for y
      using assms(3) by simp
    show ?thesis
      using False qp kp nn pos by (auto intro: all4_map4)
  qed
qed

theorem prime_features_positive_witness:
  "kernel_outputs (performer_8_2\<lparr>kernel_type := ''exp'', random_features := Some features_6_4\<rparr>)
     [[[[0, 0, 0, 0]], [[0, 0, 0, 0]]]] [[[[0, 0, 0, 0]], [[0, 0, 0, 0]]]] =
     Inr ([[[[1, 1, 1, 1, 1, 1]], [[1, 1, 1, 1, 1, 1]]]], [[[[1, 1, 1, 1, 1, 1]], [[1, 1, 1, 1, 1, 1]]]]) \<and>
   get_projected_queries_and_keys (performer_8_2\<lparr>kernel_type := ''exp'', random_features := Some features_6_4\<rparr>)
     [[[[0, 0, 0, 0]], [[0, 0, 0, 0]]]] [[[[0, 0, 0, 0]], [[0, 0, 0, 0]]]] =
     Inr ([[[[6 powr (- (1 / 2)) * (1 + 1 / 1000), 6 powr (- (1 / 2)) * (1 + 1 / 1000), 6 powr (- (1 / 2)) * (1 + 1 / 1000), 6 powr (- (1 / 2)) * (1 + 1 / 1000), 6 powr (- (1 / 2)) * (1 + 1 / 1000), 6 powr (- (1 / 2)) * (1 + 1 / 1000)]], [[6 powr (- (1 / 2)) * (1 + 1 / 1000), 6 powr (- (1 / 2)) * (1 + 1 / 1000), 6 powr (- (1 / 2)) * (1 + 1 / 1000), 6 powr (- (1 / 2)) * (1 + 1 / 1000), 6 powr (- (1 / 2)) * (1 + 1 / 1000), 6 powr (- (1 / 2)) * (1 + 1 / 1000)]]]],
          [[[[6 powr (- (1 / 2)) * (1 + 1 / 1000), 6 powr (- (1 / 2)) * (1 + 1 / 1000), 6 powr (- (1 / 2)) * (1 + 1 / 1000), 6 powr (- (1 / 2)) * (1 + 1 / 1000), 6 powr (- (1 / 2)) * (1 + 1 / 1000), 6 powr (- (1 / 2)) * (1 + 1 / 1000)]], [[6 powr (- (1 / 2)) * (1 + 1 / 1000), 6 powr (- (1 / 2)) * (1 + 1 / 1000), 6 powr (- (1 / 2)) * (1 + 1 / 1000), 6 powr (- (1 / 2)) * (1 + 1 / 1000), 6 powr (- (1 / 2)) * (1 + 1 / 1000), 6 powr (- (1 / 2)) * (1 + 1 / 1000)]]]]) \<and>
   0 < kernel_epsilon (performer_8_2\<lparr>kernel_type := ''exp'', random_features := Some features_6_4\<rparr>) \<and>
   all4 (\<lambda>x. 0 < x)
     [[[[6 powr (- (1 / 2)) * (1 + 1 / 1000), 6 powr (- (1 / 2)) * (1 + 1 / 1000), 6 powr (- (1 / 2)) * (1 + 1 / 1000), 6 powr (- (1 / 2)) * (1 + 1 / 1000), 6 powr (- (1 / 2)) * (1 + 1 / 1000), 6 powr (- (1 / 2)) * (1 + 1 / 1000)]], [[6 powr (- (1 / 2)) * (1 + 1 / 1000), 6 powr (- (1 / 2)) * (1 + 1 / 1000), 6 powr (- (1 / 2)) * (1 + 1 / 1000), 6 powr (- (1 / 2)) * (1 + 1 / 1000), 6 powr (- (1 / 2)) * (1 + 1 / 1000), 6 powr (- (1 / 2)) * (1 + 1 / 1000)]]]]"
proof -
  have e: "0 < kernel_epsilon (performer_8_2\<lparr>kernel_type := ''exp'', random_features := Some features_6_4\<rparr>)"
    by (simp add: performer_8_2_def)
  from prime_features_positive [OF exp_outputs exp_projected e] exp_outputs exp_projected e
  show ?thesis by blast
qed

end
